theory Spec2Isabelle
  imports Main "HOL-Library.Word"
begin

unbundle bit_operations_syntax

section \<open>IPv4 addresses\<close>

text \<open>
  An \<open>in_addr\<close> holds its \<open>s_addr\<close> as a 32-bit value in network byte order;
  \<open>ntohl\<close> turns it into the host-order number on which the class test works.
  \<open>INADDR_ANY\<close> and \<open>INADDR_NONE\<close> are the fall-back definitions of ipv4.c, lines 75-80.
\<close>

type_synonym in_addr_t = "32 word"

definition INADDR_ANY :: in_addr_t where
  "INADDR_ANY = 0x00000000"

definition INADDR_NONE :: in_addr_t where
  "INADDR_NONE = 0xFFFFFFFF"

text \<open>
  Modelled from the spec: \<open>IN_CLASSD\<close> is a macro of the system header
  \<open>netinet/in.h\<close>, which is not part of the sources. The glossary of the spec calls an
  address multicast (class D) when it lies in 224.0.0.0-239.255.255.255; the header tests
  the top four bits of the host-order address, which is the same set
  (lemma \<open>IN_MULTICAST_range\<close> below).
\<close>

definition IN_CLASSD :: "in_addr_t \<Rightarrow> bool" where
  "IN_CLASSD a = (a AND 0xf0000000 = 0xe0000000)"

text \<open>ipv4.c, lines 81-83: \<open>#define IN_MULTICAST(a) IN_CLASSD(a)\<close>.\<close>

definition IN_MULTICAST :: "in_addr_t \<Rightarrow> bool" where
  "IN_MULTICAST a = IN_CLASSD a"

text \<open>
  \<open>struct sockaddr_in\<close>: the family is always \<open>AF_INET\<close> here (the resolver hints
  ask for nothing else), so only the port and the address are kept.
\<close>

record sockaddr_in =
  sin_port :: int
  sin_addr :: in_addr_t

text \<open>\<open>struct ip_mreq_source\<close>, the argument of \<open>IP_ADD_SOURCE_MEMBERSHIP\<close>.\<close>

record ip_mreq_source =
  imr_multiaddr :: in_addr_t
  imr_sourceaddr :: in_addr_t
  imr_interface :: in_addr_t

section \<open>The build configuration\<close>

text \<open>
  OpenUDP is compiled differently depending on preprocessor symbols that the system
  headers and the build define. Each \<open>#if\<close> of the function reads one field:
  \<^item> \<open>WIN32\<close>: \<open>defined(WIN32) || defined(UNDER_CE)\<close> (line 211);
  \<^item> \<open>SYS_BEOS\<close>: \<open>defined(SYS_BEOS)\<close> (line 239);
  \<^item> \<open>have_SO_REUSEPORT\<close>: \<open>#ifdef SO_REUSEPORT\<close> (line 190);
  \<^item> \<open>have_SO_RCVBUF\<close>: \<open>#ifdef SO_RCVBUF\<close> (line 198);
  \<^item> \<open>have_IP_ADD_SOURCE_MEMBERSHIP\<close>: \<open>#ifdef IP_ADD_SOURCE_MEMBERSHIP\<close> (line 251);
  \<^item> \<open>have_IP_MULTICAST_IF\<close>: \<open>#ifdef IP_MULTICAST_IF\<close> (line 307);
  \<^item> \<open>ntohl\<close>: the C library's conversion from network to host byte order.
\<close>

record platform =
  WIN32 :: bool
  SYS_BEOS :: bool
  have_SO_REUSEPORT :: bool
  have_SO_RCVBUF :: bool
  have_IP_ADD_SOURCE_MEMBERSHIP :: bool
  have_IP_MULTICAST_IF :: bool
  ntohl :: "in_addr_t \<Rightarrow> in_addr_t"

section \<open>System calls and the outside world\<close>

datatype level = SOL_SOCKET | IPPROTO_IP

text \<open>
  The options the file names. \<open>IP_ADD_MEMBERSHIP\<close> is only ever defined (line 62), no
  call uses it.
\<close>

datatype optname =
    SO_REUSEADDR | SO_REUSEPORT | SO_RCVBUF | SO_SNDBUF | SO_BROADCAST
  | IP_ADD_MEMBERSHIP | IP_ADD_SOURCE_MEMBERSHIP | IP_MULTICAST_IF | IP_MULTICAST_TTL

text \<open>
  The argument of a \<open>setsockopt\<close> call together with its size: an \<open>int\<close>
  (\<open>sizeof(int)\<close>), one \<open>unsigned char\<close>, a \<open>struct ip_mreq_source\<close> or a
  \<open>struct in_addr\<close>.
\<close>

datatype optval =
    Int_arg int
  | Byte_arg "8 word"
  | Mreq_source_arg ip_mreq_source
  | In_addr_arg in_addr_t

datatype var_flag = VLC_VAR_INTEGER | VLC_VAR_DOINHERIT

text \<open>
  Every call that leaves the function is recorded, with its arguments and, where the
  code looks at it, the returned \<open>int\<close>.
\<close>

datatype event =
    Getaddrinfo string int
  | Socket int
  | Setsockopt int level optname optval int
  | Bind int sockaddr_in int
  | Connect int sockaddr_in int
  | Close int
  | Config_GetPsz string
  | Config_GetInt string
  | Var_Get string
  | Var_Create string "var_flag list"

datatype severity = Dbg | Warn | Err

text \<open>
  What the collaborators answer. None of them is in the sources, so each is a parameter:
  the resolver \<open>vlc_getaddrinfo\<close> (\<open>None\<close> for a non-zero return), the value
  returned by \<open>socket\<close>, \<open>setsockopt\<close>, \<open>bind\<close> and \<open>connect\<close>, the C library's
  \<open>inet_addr\<close>, the config store (\<open>config_GetPsz\<close> returns \<open>NULL\<close> as \<open>None\<close>),
  and the variable store of the object with its \<open>var_Get\<close> (\<open>None\<close> for a return
  other than \<open>VLC_SUCCESS\<close>, in which case the value is not written) and \<open>var_Create\<close>.
  \<open>val_uninit\<close> is the indeterminate content of the local \<open>vlc_value_t val\<close>, which
  OpenUDP never initialises.
\<close>

record 'v env =
  vlc_getaddrinfo :: "string \<Rightarrow> int \<Rightarrow> sockaddr_in option"
  socket_ret :: int
  setsockopt_ret :: "level \<Rightarrow> optname \<Rightarrow> optval \<Rightarrow> int"
  bind_ret :: "sockaddr_in \<Rightarrow> int"
  connect_ret :: "sockaddr_in \<Rightarrow> int"
  inet_addr :: "string \<Rightarrow> in_addr_t"
  config_GetPsz :: "string \<Rightarrow> string option"
  config_GetInt :: "string \<Rightarrow> int"
  var_Get :: "'v \<Rightarrow> string \<Rightarrow> int option"
  var_Create :: "'v \<Rightarrow> string \<Rightarrow> var_flag list \<Rightarrow> 'v"
  val_uninit :: int

text \<open>
  The state the function works on: the calls made so far (oldest first), the messages
  logged, the descriptors currently open in the process, and the variable store.
\<close>

record 'v world =
  calls :: "event list"
  msgs :: "(severity \<times> string) list"
  open_fds :: "int list"
  vars :: 'v

definition emit :: "event \<Rightarrow> 'v world \<Rightarrow> 'v world" where
  "emit ev w = w\<lparr>calls := calls w @ [ev]\<rparr>"

text \<open>\<open>msg_Dbg\<close>, \<open>msg_Warn\<close>, \<open>msg_Err\<close>: the format string is kept, its arguments are not.\<close>

definition msg :: "severity \<Rightarrow> string \<Rightarrow> 'v world \<Rightarrow> 'v world" where
  "msg sev fmt w = w\<lparr>msgs := msgs w @ [(sev, fmt)]\<rparr>"

text \<open>\<open>socket(AF_INET, SOCK_DGRAM, 0)\<close>: any value but -1 is a new open descriptor.\<close>

definition socket_call :: "'v env \<Rightarrow> 'v world \<Rightarrow> int \<times> 'v world" where
  "socket_call e w =
     (let fd = socket_ret e
      in (fd, (emit (Socket fd) w)
                \<lparr>open_fds := (if fd = -1 then open_fds w else fd # open_fds w)\<rparr>))"

text \<open>\<open>close(fd)\<close>: the descriptor is no longer open.\<close>

definition close_call :: "int \<Rightarrow> 'v world \<Rightarrow> 'v world" where
  "close_call fd w = (emit (Close fd) w)\<lparr>open_fds := removeAll fd (open_fds w)\<rparr>"

definition setsockopt_call ::
  "'v env \<Rightarrow> int \<Rightarrow> level \<Rightarrow> optname \<Rightarrow> optval \<Rightarrow> 'v world \<Rightarrow> int \<times> 'v world" where
  "setsockopt_call e fd lvl opt v w =
     (let r = setsockopt_ret e lvl opt v in (r, emit (Setsockopt fd lvl opt v r) w))"

definition bind_call :: "'v env \<Rightarrow> int \<Rightarrow> sockaddr_in \<Rightarrow> 'v world \<Rightarrow> int \<times> 'v world" where
  "bind_call e fd sa w = (let r = bind_ret e sa in (r, emit (Bind fd sa r) w))"

definition connect_call :: "'v env \<Rightarrow> int \<Rightarrow> sockaddr_in \<Rightarrow> 'v world \<Rightarrow> int \<times> 'v world" where
  "connect_call e fd sa w = (let r = connect_ret e sa in (r, emit (Connect fd sa r) w))"

section \<open>The input and output structure\<close>

text \<open>
  \<open>network_socket_t\<close> (declared in network.h): the fields OpenUDP reads
  (\<open>psz_bind_addr\<close>, \<open>i_bind_port\<close>, \<open>psz_server_addr\<close>, \<open>i_server_port\<close>, \<open>i_ttl\<close>)
  and the two it writes (\<open>i_handle\<close>, \<open>i_mtu\<close>).
\<close>

record network_socket_t =
  psz_bind_addr :: string
  i_bind_port :: int
  psz_server_addr :: string
  i_server_port :: int
  i_ttl :: int
  i_handle :: int
  i_mtu :: int

text \<open>
  OpenUDP returns the literal 0 or the macro \<open>VLC_EGENERIC\<close> (vlc.h, not in the
  sources): the two outcomes are the two values of this type.
\<close>

datatype retcode = VLC_SUCCESS | VLC_EGENERIC

section \<open>BuildAddr (ipv4.c, lines 106-130)\<close>

text \<open>
  The C function returns -1 or 0 and fills \<open>*p_socket\<close> in the second case only; here
  it returns \<open>None\<close> or the address it filled in.
\<close>

definition BuildAddr ::
  "'v env \<Rightarrow> string \<Rightarrow> int \<Rightarrow> 'v world \<Rightarrow> sockaddr_in option \<times> 'v world" where
  "BuildAddr e psz_address i_port w0 =
     (let w1 = msg Dbg ''resolving %s:%d...'' w0;
          w2 = emit (Getaddrinfo psz_address i_port) w1
      in case vlc_getaddrinfo e psz_address i_port of
           None \<Rightarrow> (None, msg Warn ''%s: %s'' w2)
         | Some sa \<Rightarrow> (Some sa, w2))"

section \<open>OpenUDP (ipv4.c, lines 156-372)\<close>

text \<open>Lines 186-209: reuse and buffer options; no return value decides anything.\<close>

definition tune_socket :: "platform \<Rightarrow> 'v env \<Rightarrow> int \<Rightarrow> 'v world \<Rightarrow> 'v world" where
  "tune_socket pl e fd w0 =
     (let w1 = snd (setsockopt_call e fd SOL_SOCKET SO_REUSEADDR (Int_arg 1) w0);
          w2 = (if have_SO_REUSEPORT pl
                then snd (setsockopt_call e fd SOL_SOCKET SO_REUSEPORT (Int_arg 1) w1)
                else w1)
      in if have_SO_RCVBUF pl
         then (let (r, w3) = setsockopt_call e fd SOL_SOCKET SO_RCVBUF (Int_arg 0x80000) w2;
                   w4 = (if r = -1 then msg Dbg ''cannot configure socket (SO_RCVBUF: %s)'' w3
                         else w3);
                   (r', w5) = setsockopt_call e fd SOL_SOCKET SO_SNDBUF (Int_arg 0x80000) w4
               in if r' = -1 then msg Dbg ''cannot configure socket (SO_SNDBUF: %s)'' w5 else w5)
         else w2)"

text \<open>
  Lines 211-237: bind, on Windows to \<open>INADDR_ANY\<close> when the address is multicast.
  The result says whether the code goes on (\<open>True\<close>) or jumps to \<open>error\<close>.
\<close>

definition bind_socket ::
  "platform \<Rightarrow> 'v env \<Rightarrow> int \<Rightarrow> sockaddr_in \<Rightarrow> 'v world \<Rightarrow> bool \<times> 'v world" where
  "bind_socket pl e fd sock w0 =
     (if WIN32 pl \<and> IN_MULTICAST (ntohl pl (sin_addr sock))
      then (let stupid = sock\<lparr>sin_addr := INADDR_ANY\<rparr>;
                (r, w1) = bind_call e fd stupid w0
            in if r < 0 then (False, msg Err ''cannot bind socket (%d)'' w1) else (True, w1))
      else (let (r, w1) = bind_call e fd sock w0
            in if r < 0 then (False, msg Err ''cannot bind socket (%s)'' w1) else (True, w1)))"

text \<open>Lines 239-249: broadcast reception when the bind address string is empty.\<close>

definition allow_broadcast ::
  "platform \<Rightarrow> 'v env \<Rightarrow> string \<Rightarrow> int \<Rightarrow> 'v world \<Rightarrow> 'v world" where
  "allow_broadcast pl e psz_bind fd w0 =
     (if \<not> SYS_BEOS pl \<and> psz_bind = []
      then (let (r, w1) = setsockopt_call e fd SOL_SOCKET SO_BROADCAST (Int_arg 1) w0
            in if r = -1 then msg Warn ''cannot configure socket (SO_BROADCAST: %s)'' w1 else w1)
      else w0)"

text \<open>Lines 267-271: the interface of the membership request.\<close>

definition join_interface :: "'v env \<Rightarrow> string option \<Rightarrow> in_addr_t" where
  "join_interface e psz_if_addr =
     (case psz_if_addr of
        None \<Rightarrow> INADDR_ANY
      | Some s \<Rightarrow> if s \<noteq> [] \<and> inet_addr e s \<noteq> INADDR_NONE then inet_addr e s else INADDR_ANY)"

text \<open>Lines 254-288: the body of the multicast branch.\<close>

definition join_group ::
  "'v env \<Rightarrow> network_socket_t \<Rightarrow> int \<Rightarrow> sockaddr_in \<Rightarrow> 'v world \<Rightarrow> bool \<times> 'v world" where
  "join_group e p_socket fd sock w0 =
     (let psz_if_addr = config_GetPsz e ''miface-addr'';
          w1 = emit (Config_GetPsz ''miface-addr'') w0;
          imr = \<lparr>imr_multiaddr = sin_addr sock,
                 imr_sourceaddr = inet_addr e (psz_server_addr p_socket),
                 imr_interface = join_interface e psz_if_addr\<rparr>;
          w2 = msg Dbg ''IP_ADD_SOURCE_MEMBERSHIP multicast request'' w1;
          (r, w3) = setsockopt_call e fd IPPROTO_IP IP_ADD_SOURCE_MEMBERSHIP
                      (Mreq_source_arg imr) w2
      in if r = -1
         then (False, msg Err ''Source specific multicast failed (%s) -check if your OS really supports IGMPv3'' w3)
         else (True, w3))"

text \<open>Lines 332-353: the multicast TTL, as a byte and then as an \<open>int\<close>.\<close>

definition set_ttl :: "'v env \<Rightarrow> int \<Rightarrow> int \<Rightarrow> 'v world \<Rightarrow> bool \<times> 'v world" where
  "set_ttl e fd ttl_int w0 =
     (let ttl = (word_of_int ttl_int :: 8 word);
          (r, w1) = setsockopt_call e fd IPPROTO_IP IP_MULTICAST_TTL (Byte_arg ttl) w0
      in if r < 0
         then (let w2 = msg Dbg ''failed to set ttl (%s). Let's try it the integer way.'' w1;
                   (r', w3) = setsockopt_call e fd IPPROTO_IP IP_MULTICAST_TTL
                                (Int_arg ttl_int) w2
               in if r' < 0 then (False, msg Err ''failed to set ttl (%s)'' w3) else (True, w3))
         else (True, w1))"

text \<open>Lines 329-330: the TTL that line 332 tests.\<close>

definition chosen_ttl :: "'v env \<Rightarrow> network_socket_t \<Rightarrow> int" where
  "chosen_ttl e p_socket =
     (if i_ttl p_socket \<le> 0 then config_GetInt e ''ttl'' else i_ttl p_socket)"

text \<open>Lines 309-354: the options of a socket that sends to a multicast group.\<close>

definition multicast_send_options ::
  "'v env \<Rightarrow> network_socket_t \<Rightarrow> int \<Rightarrow> 'v world \<Rightarrow> bool \<times> 'v world" where
  "multicast_send_options e p_socket fd w0 =
     (let w1 = emit (Config_GetPsz ''miface-addr'') w0;
          (ok, w2) =
            (case config_GetPsz e ''miface-addr'' of
               None \<Rightarrow> (True, w1)
             | Some psz_mif_addr \<Rightarrow>
                 (let (r, w) = setsockopt_call e fd IPPROTO_IP IP_MULTICAST_IF
                                 (In_addr_arg (inet_addr e psz_mif_addr)) w1
                  in if r < 0
                     then (False, msg Err ''failed to set multicast interface (%s).'' w)
                     else (True, w)))
      in if \<not> ok then (False, w2)
         else (let w3 = (if i_ttl p_socket \<le> 0 then emit (Config_GetInt ''ttl'') w2 else w2)
               in if chosen_ttl e p_socket > 0
                  then set_ttl e fd (chosen_ttl e p_socket) w3
                  else (True, w3)))"

text \<open>Lines 291-356: the branch that connects the socket.\<close>

definition connect_remote ::
  "platform \<Rightarrow> 'v env \<Rightarrow> network_socket_t \<Rightarrow> int \<Rightarrow> 'v world \<Rightarrow> bool \<times> 'v world" where
  "connect_remote pl e p_socket fd w0 =
     (case BuildAddr e (psz_server_addr p_socket) (i_server_port p_socket) w0 of
        (None, w1) \<Rightarrow> (False, msg Err ''cannot build remote address'' w1)
      | (Some sock, w1) \<Rightarrow>
          (let (r, w2) = connect_call e fd sock w1
           in if r = -1 then (False, msg Err ''cannot connect socket (%s)'' w2)
              else if have_IP_MULTICAST_IF pl
                      \<and> IN_MULTICAST (ntohl pl (inet_addr e (psz_server_addr p_socket)))
              then multicast_send_options e p_socket fd w2
              else (True, w2)))"

text \<open>Lines 360-365: the value that ends up in \<open>i_mtu\<close>.\<close>

definition read_mtu :: "'v env \<Rightarrow> 'v world \<Rightarrow> int \<times> 'v world" where
  "read_mtu e w0 =
     (let w1 = emit (Var_Get ''mtu'') w0
      in case var_Get e (vars w1) ''mtu'' of
           Some v \<Rightarrow> (v, w1)
         | None \<Rightarrow>
             (let fl = [VLC_VAR_INTEGER, VLC_VAR_DOINHERIT];
                  w2 = (emit (Var_Create ''mtu'' fl) w1)\<lparr>vars := var_Create e (vars w1) ''mtu'' fl\<rparr>;
                  w3 = emit (Var_Get ''mtu'') w2
              in (case var_Get e (vars w3) ''mtu'' of Some v \<Rightarrow> v | None \<Rightarrow> val_uninit e, w3)))"

text \<open>
  The whole function. It returns the code, the structure \<open>p_this->p_private\<close> as it
  leaves it, and the world. Every \<open>goto error\<close> ends in \<open>close_call\<close> (lines 369-371).
\<close>

definition OpenUDP ::
  "platform \<Rightarrow> 'v env \<Rightarrow> network_socket_t \<Rightarrow> 'v world
     \<Rightarrow> retcode \<times> network_socket_t \<times> 'v world" where
  "OpenUDP pl e p_socket w0 =
     (let p0 = p_socket\<lparr>i_handle := -1\<rparr>
      in case BuildAddr e (psz_bind_addr p_socket) (i_bind_port p_socket) w0 of
           (None, w1) \<Rightarrow> (VLC_EGENERIC, p0, w1)
         | (Some sock, w1) \<Rightarrow>
             (let (fd, w2) = socket_call e w1
              in if fd = -1
                 then (VLC_EGENERIC, p0, msg Err ''cannot create socket (%s)'' w2)
                 else
                   (let w3 = tune_socket pl e fd w2;
                        (bound, w4) = bind_socket pl e fd sock w3
                    in if \<not> bound then (VLC_EGENERIC, p0, close_call fd w4)
                       else
                         (let w5 = allow_broadcast pl e (psz_bind_addr p_socket) fd w4;
                              (ok, w6) =
                                (if have_IP_ADD_SOURCE_MEMBERSHIP pl
                                    \<and> IN_MULTICAST (ntohl pl (sin_addr sock))
                                 then join_group e p_socket fd sock w5
                                 else connect_remote pl e p_socket fd w5)
                          in if \<not> ok then (VLC_EGENERIC, p0, close_call fd w6)
                             else
                               (let (mtu, w7) = read_mtu e w6
                                in (VLC_SUCCESS, p0\<lparr>i_handle := fd, i_mtu := mtu\<rparr>, w7))))))"

text \<open>The calls one invocation adds to the record.\<close>

definition OpenUDP_calls ::
  "platform \<Rightarrow> 'v env \<Rightarrow> network_socket_t \<Rightarrow> 'v world \<Rightarrow> event list" where
  "OpenUDP_calls pl e p_socket w0 =
     drop (length (calls w0)) (calls (snd (snd (OpenUDP pl e p_socket w0))))"

section \<open>Reading the record of calls\<close>

text \<open>The option a recorded \<open>setsockopt\<close> call sets.\<close>

fun sockopt_of :: "event \<Rightarrow> optname option" where
  "sockopt_of (Setsockopt fd lvl opt v r) = Some opt"
| "sockopt_of ev = None"

text \<open>The \<open>connect\<close> calls and the \<open>socket\<close> calls.\<close>

fun is_connect :: "event \<Rightarrow> bool" where
  "is_connect (Connect fd sa r) = True"
| "is_connect ev = False"

fun is_socket :: "event \<Rightarrow> bool" where
  "is_socket (Socket fd) = True"
| "is_socket ev = False"

text \<open>A request for membership in a multicast group, of either kind.\<close>

definition is_join :: "event \<Rightarrow> bool" where
  "is_join ev =
     (sockopt_of ev = Some IP_ADD_MEMBERSHIP \<or> sockopt_of ev = Some IP_ADD_SOURCE_MEMBERSHIP)"

text \<open>The options of lines 186-209.\<close>

definition tuning_opt :: "optname \<Rightarrow> bool" where
  "tuning_opt opt = (opt = SO_REUSEADDR \<or> opt = SO_REUSEPORT \<or> opt = SO_RCVBUF \<or> opt = SO_SNDBUF)"

definition is_tuning :: "event \<Rightarrow> bool" where
  "is_tuning ev = (case sockopt_of ev of None \<Rightarrow> False | Some opt \<Rightarrow> tuning_opt opt)"

text \<open>The address OpenUDP hands to \<open>bind\<close> (lines 219-233).\<close>

definition bind_target :: "platform \<Rightarrow> sockaddr_in \<Rightarrow> sockaddr_in" where
  "bind_target pl sock =
     (if WIN32 pl \<and> IN_MULTICAST (ntohl pl (sin_addr sock))
      then sock\<lparr>sin_addr := INADDR_ANY\<rparr> else sock)"

text \<open>
  The calls that set the multicast TTL, those that set the broadcast flag, and those that
  touch the variable store.
\<close>

definition is_ttl :: "event \<Rightarrow> bool" where
  "is_ttl ev = (sockopt_of ev = Some IP_MULTICAST_TTL)"

definition is_broadcast :: "event \<Rightarrow> bool" where
  "is_broadcast ev = (sockopt_of ev = Some SO_BROADCAST)"

fun is_var :: "event \<Rightarrow> bool" where
  "is_var (Var_Get name) = True"
| "is_var (Var_Create name fl) = True"
| "is_var ev = False"

text \<open>
  The options whose result OpenUDP does not act upon, and a recorded call with the
  result of such an option blanked out.
\<close>

definition advisory_opt :: "optname \<Rightarrow> bool" where
  "advisory_opt opt = (tuning_opt opt \<or> opt = SO_BROADCAST)"

fun forget_result :: "(optname \<Rightarrow> bool) \<Rightarrow> event \<Rightarrow> event" where
  "forget_result P (Setsockopt fd lvl opt v r) = Setsockopt fd lvl opt v (if P opt then 0 else r)"
| "forget_result P ev = ev"

section \<open>A test environment\<close>

text \<open>
  A little-endian host on which every symbol is defined, a resolver and an
  \<open>inet_addr\<close> that know three dotted addresses (stored in network byte order), calls
  that all succeed, a config store without \<open>miface-addr\<close> and with the default
  \<open>ttl\<close> 16, and a variable store kept as an association list in which a created
  variable starts at 1500.
\<close>

definition ntohl_le :: "in_addr_t \<Rightarrow> in_addr_t" where
  "ntohl_le a = push_bit 24 (a AND 0xFF) OR push_bit 8 (a AND 0xFF00)
                  OR (drop_bit 8 a AND 0xFF00) OR drop_bit 24 a"

definition test_platform :: platform where
  "test_platform =
     \<lparr>WIN32 = False, SYS_BEOS = False, have_SO_REUSEPORT = True, have_SO_RCVBUF = True,
      have_IP_ADD_SOURCE_MEMBERSHIP = True, have_IP_MULTICAST_IF = True, ntohl = ntohl_le\<rparr>"

definition test_inet_addr :: "string \<Rightarrow> in_addr_t" where
  "test_inet_addr s =
     (if s = ''239.255.12.42'' then 0x2A0CFFEF
      else if s = ''10.0.0.5'' then 0x0500000A
      else if s = ''192.168.1.10'' then 0x0A01A8C0
      else INADDR_NONE)"

definition test_getaddrinfo :: "string \<Rightarrow> int \<Rightarrow> sockaddr_in option" where
  "test_getaddrinfo host port =
     (if host = [] then Some \<lparr>sin_port = port, sin_addr = INADDR_ANY\<rparr>
      else if test_inet_addr host = INADDR_NONE then None
      else Some \<lparr>sin_port = port, sin_addr = test_inet_addr host\<rparr>)"

definition test_env :: "(string \<times> int) list env" where
  "test_env =
     \<lparr>vlc_getaddrinfo = test_getaddrinfo, socket_ret = 3,
      setsockopt_ret = (\<lambda>lvl opt v. 0), bind_ret = (\<lambda>sa. 0), connect_ret = (\<lambda>sa. 0),
      inet_addr = test_inet_addr, config_GetPsz = (\<lambda>name. None),
      config_GetInt = (\<lambda>name. if name = ''ttl'' then 16 else 0),
      var_Get = (\<lambda>vs name. map_of vs name),
      var_Create = (\<lambda>vs name fl. if map_of vs name = None then (name, 1500) # vs else vs),
      val_uninit = 0\<rparr>"

definition test_world :: "(string \<times> int) list world" where
  "test_world = \<lparr>calls = [], msgs = [], open_fds = [0, 1, 2], vars = []\<rparr>"

definition request :: "string \<Rightarrow> int \<Rightarrow> string \<Rightarrow> int \<Rightarrow> int \<Rightarrow> network_socket_t" where
  "request b bp s sp t =
     \<lparr>psz_bind_addr = b, i_bind_port = bp, psz_server_addr = s, i_server_port = sp,
      i_ttl = t, i_handle = 0, i_mtu = 0\<rparr>"

section \<open>What each part of OpenUDP calls, and when it goes on\<close>

text \<open>
  The definitions of this section are not part of the program: they name, for each
  block of OpenUDP, the calls it records and the condition under which it does not jump
  to \<open>error\<close>. The lemmas after them prove that the blocks do exactly that.
\<close>

definition join_request :: "'v env \<Rightarrow> network_socket_t \<Rightarrow> sockaddr_in \<Rightarrow> optval" where
  "join_request e p sock =
     Mreq_source_arg
       \<lparr>imr_multiaddr = sin_addr sock,
        imr_sourceaddr = inet_addr e (psz_server_addr p),
        imr_interface = join_interface e (config_GetPsz e ''miface-addr'')\<rparr>"

definition ttl_events :: "'v env \<Rightarrow> int \<Rightarrow> int \<Rightarrow> event list" where
  "ttl_events e fd t =
     Setsockopt fd IPPROTO_IP IP_MULTICAST_TTL (Byte_arg (word_of_int t))
       (setsockopt_ret e IPPROTO_IP IP_MULTICAST_TTL (Byte_arg (word_of_int t)))
     # (if setsockopt_ret e IPPROTO_IP IP_MULTICAST_TTL (Byte_arg (word_of_int t)) < 0
        then [Setsockopt fd IPPROTO_IP IP_MULTICAST_TTL (Int_arg t)
                (setsockopt_ret e IPPROTO_IP IP_MULTICAST_TTL (Int_arg t))]
        else [])"

definition ttl_ok :: "'v env \<Rightarrow> int \<Rightarrow> bool" where
  "ttl_ok e t =
     (\<not> (setsockopt_ret e IPPROTO_IP IP_MULTICAST_TTL (Byte_arg (word_of_int t)) < 0
         \<and> setsockopt_ret e IPPROTO_IP IP_MULTICAST_TTL (Int_arg t) < 0))"

definition mif_ok :: "'v env \<Rightarrow> bool" where
  "mif_ok e =
     (case config_GetPsz e ''miface-addr'' of
        None \<Rightarrow> True
      | Some s \<Rightarrow> \<not> setsockopt_ret e IPPROTO_IP IP_MULTICAST_IF (In_addr_arg (inet_addr e s)) < 0)"

definition mif_events :: "'v env \<Rightarrow> int \<Rightarrow> event list" where
  "mif_events e fd =
     Config_GetPsz ''miface-addr''
     # (case config_GetPsz e ''miface-addr'' of
          None \<Rightarrow> []
        | Some s \<Rightarrow>
            [Setsockopt fd IPPROTO_IP IP_MULTICAST_IF (In_addr_arg (inet_addr e s))
               (setsockopt_ret e IPPROTO_IP IP_MULTICAST_IF (In_addr_arg (inet_addr e s)))])"

definition send_option_events :: "'v env \<Rightarrow> network_socket_t \<Rightarrow> int \<Rightarrow> event list" where
  "send_option_events e p fd =
     mif_events e fd
     @ (if mif_ok e
        then (if i_ttl p \<le> 0 then [Config_GetInt ''ttl''] else [])
             @ (if chosen_ttl e p > 0 then ttl_events e fd (chosen_ttl e p) else [])
        else [])"

definition send_options_ok :: "'v env \<Rightarrow> network_socket_t \<Rightarrow> bool" where
  "send_options_ok e p =
     (mif_ok e \<and> (if chosen_ttl e p > 0 then ttl_ok e (chosen_ttl e p) else True))"

definition remote_multicast :: "platform \<Rightarrow> 'v env \<Rightarrow> network_socket_t \<Rightarrow> bool" where
  "remote_multicast pl e p =
     (have_IP_MULTICAST_IF pl \<and> IN_MULTICAST (ntohl pl (inet_addr e (psz_server_addr p))))"

definition connect_events ::
  "platform \<Rightarrow> 'v env \<Rightarrow> network_socket_t \<Rightarrow> int \<Rightarrow> event list" where
  "connect_events pl e p fd =
     Getaddrinfo (psz_server_addr p) (i_server_port p)
     # (case vlc_getaddrinfo e (psz_server_addr p) (i_server_port p) of
          None \<Rightarrow> []
        | Some sa \<Rightarrow>
            Connect fd sa (connect_ret e sa)
            # (if connect_ret e sa \<noteq> -1 \<and> remote_multicast pl e p
               then send_option_events e p fd else []))"

definition connect_ok :: "platform \<Rightarrow> 'v env \<Rightarrow> network_socket_t \<Rightarrow> bool" where
  "connect_ok pl e p =
     (case vlc_getaddrinfo e (psz_server_addr p) (i_server_port p) of
        None \<Rightarrow> False
      | Some sa \<Rightarrow>
          connect_ret e sa \<noteq> -1 \<and> (if remote_multicast pl e p then send_options_ok e p else True))"

definition mtu_events :: "'v env \<Rightarrow> 'v \<Rightarrow> event list" where
  "mtu_events e vs =
     Var_Get ''mtu''
     # (case var_Get e vs ''mtu'' of
          Some v \<Rightarrow> []
        | None \<Rightarrow> [Var_Create ''mtu'' [VLC_VAR_INTEGER, VLC_VAR_DOINHERIT], Var_Get ''mtu''])"

definition mtu_vars :: "'v env \<Rightarrow> 'v \<Rightarrow> 'v" where
  "mtu_vars e vs =
     (case var_Get e vs ''mtu'' of
        Some v \<Rightarrow> vs
      | None \<Rightarrow> var_Create e vs ''mtu'' [VLC_VAR_INTEGER, VLC_VAR_DOINHERIT])"

definition mtu_value :: "'v env \<Rightarrow> 'v \<Rightarrow> int" where
  "mtu_value e vs =
     (case var_Get e vs ''mtu'' of
        Some v \<Rightarrow> v
      | None \<Rightarrow>
          (case var_Get e (var_Create e vs ''mtu'' [VLC_VAR_INTEGER, VLC_VAR_DOINHERIT]) ''mtu'' of
             Some v \<Rightarrow> v
           | None \<Rightarrow> val_uninit e))"

definition tune_events :: "platform \<Rightarrow> 'v env \<Rightarrow> int \<Rightarrow> event list" where
  "tune_events pl e fd =
     [Setsockopt fd SOL_SOCKET SO_REUSEADDR (Int_arg 1)
        (setsockopt_ret e SOL_SOCKET SO_REUSEADDR (Int_arg 1))]
     @ (if have_SO_REUSEPORT pl
        then [Setsockopt fd SOL_SOCKET SO_REUSEPORT (Int_arg 1)
                (setsockopt_ret e SOL_SOCKET SO_REUSEPORT (Int_arg 1))]
        else [])
     @ (if have_SO_RCVBUF pl
        then [Setsockopt fd SOL_SOCKET SO_RCVBUF (Int_arg 0x80000)
                (setsockopt_ret e SOL_SOCKET SO_RCVBUF (Int_arg 0x80000)),
              Setsockopt fd SOL_SOCKET SO_SNDBUF (Int_arg 0x80000)
                (setsockopt_ret e SOL_SOCKET SO_SNDBUF (Int_arg 0x80000))]
        else [])"

definition broadcast_events :: "platform \<Rightarrow> 'v env \<Rightarrow> string \<Rightarrow> int \<Rightarrow> event list" where
  "broadcast_events pl e b fd =
     (if \<not> SYS_BEOS pl \<and> b = []
      then [Setsockopt fd SOL_SOCKET SO_BROADCAST (Int_arg 1)
              (setsockopt_ret e SOL_SOCKET SO_BROADCAST (Int_arg 1))]
      else [])"

definition join_branch :: "platform \<Rightarrow> sockaddr_in \<Rightarrow> bool" where
  "join_branch pl sock =
     (have_IP_ADD_SOURCE_MEMBERSHIP pl \<and> IN_MULTICAST (ntohl pl (sin_addr sock)))"

definition join_events ::
  "'v env \<Rightarrow> network_socket_t \<Rightarrow> int \<Rightarrow> sockaddr_in \<Rightarrow> event list" where
  "join_events e p fd sock =
     [Config_GetPsz ''miface-addr'',
      Setsockopt fd IPPROTO_IP IP_ADD_SOURCE_MEMBERSHIP (join_request e p sock)
        (setsockopt_ret e IPPROTO_IP IP_ADD_SOURCE_MEMBERSHIP (join_request e p sock))]"

definition join_ok :: "'v env \<Rightarrow> network_socket_t \<Rightarrow> sockaddr_in \<Rightarrow> bool" where
  "join_ok e p sock =
     (setsockopt_ret e IPPROTO_IP IP_ADD_SOURCE_MEMBERSHIP (join_request e p sock) \<noteq> -1)"

definition branch_events ::
  "platform \<Rightarrow> 'v env \<Rightarrow> network_socket_t \<Rightarrow> int \<Rightarrow> sockaddr_in \<Rightarrow> event list" where
  "branch_events pl e p fd sock =
     (if join_branch pl sock then join_events e p fd sock else connect_events pl e p fd)"

definition branch_ok ::
  "platform \<Rightarrow> 'v env \<Rightarrow> network_socket_t \<Rightarrow> sockaddr_in \<Rightarrow> bool" where
  "branch_ok pl e p sock =
     (if join_branch pl sock then join_ok e p sock else connect_ok pl e p)"

definition bound_events ::
  "platform \<Rightarrow> 'v env \<Rightarrow> network_socket_t \<Rightarrow> 'v \<Rightarrow> sockaddr_in \<Rightarrow> event list" where
  "bound_events pl e p vs sock =
     broadcast_events pl e (psz_bind_addr p) (socket_ret e)
     @ branch_events pl e p (socket_ret e) sock
     @ (if branch_ok pl e p sock then mtu_events e vs else [Close (socket_ret e)])"

definition socket_events ::
  "platform \<Rightarrow> 'v env \<Rightarrow> network_socket_t \<Rightarrow> 'v \<Rightarrow> sockaddr_in \<Rightarrow> event list" where
  "socket_events pl e p vs sock =
     tune_events pl e (socket_ret e)
     @ Bind (socket_ret e) (bind_target pl sock) (bind_ret e (bind_target pl sock))
     # (if bind_ret e (bind_target pl sock) < 0 then [Close (socket_ret e)]
        else bound_events pl e p vs sock)"

definition trace :: "platform \<Rightarrow> 'v env \<Rightarrow> network_socket_t \<Rightarrow> 'v \<Rightarrow> event list" where
  "trace pl e p vs =
     Getaddrinfo (psz_bind_addr p) (i_bind_port p)
     # (case vlc_getaddrinfo e (psz_bind_addr p) (i_bind_port p) of
          None \<Rightarrow> []
        | Some sock \<Rightarrow>
            Socket (socket_ret e)
            # (if socket_ret e = -1 then [] else socket_events pl e p vs sock))"

definition succeeds :: "platform \<Rightarrow> 'v env \<Rightarrow> network_socket_t \<Rightarrow> bool" where
  "succeeds pl e p =
     (case vlc_getaddrinfo e (psz_bind_addr p) (i_bind_port p) of
        None \<Rightarrow> False
      | Some sock \<Rightarrow>
          socket_ret e \<noteq> -1 \<and> \<not> bind_ret e (bind_target pl sock) < 0
          \<and> branch_ok pl e p sock)"

section \<open>The class D test is the range 224.0.0.0-239.255.255.255\<close>

lemma top_nibble_mask: "(0xf0000000::32 word) = NOT (mask 28)"
  by (simp add: mask_eq_exp_minus_1)

lemma and_top_nibble: "(a::32 word) AND 0xf0000000 = push_bit 28 (drop_bit 28 a)"
  unfolding top_nibble_mask by (rule bit_word_eqI) (auto simp: bit_simps)

lemma unat_top_nibble:
  "unat (push_bit 28 (drop_bit 28 (a::32 word))) = (unat a div 2^28) * 2^28"
proof -
  have "unat a < 2^32"
    using unsigned_less[of a, where ?'a = nat] by simp
  then have "(unat a div 2^28) * 2^28 < (2::nat)^32"
    using div_times_less_eq_dividend[of "unat a" "2^28"] by linarith
  then show ?thesis
    by (simp add: push_bit_eq_mult drop_bit_eq_div unat_word_ariths unat_div)
qed

lemma IN_MULTICAST_range:
  "IN_MULTICAST a \<longleftrightarrow> 0xE0000000 \<le> a \<and> a \<le> 0xEFFFFFFF"
proof -
  have "(a AND 0xf0000000 = 0xe0000000)
          \<longleftrightarrow> unat (a AND 0xf0000000) = unat (0xe0000000::32 word)"
    by (simp only: word_unat_eq_iff)
  also have "\<dots> \<longleftrightarrow> (unat a div 2^28) * 2^28 = 14 * 2^28"
    by (simp add: and_top_nibble unat_top_nibble)
  also have "\<dots> \<longleftrightarrow> unat a div 2^28 = 14"
    by simp
  also have "\<dots> \<longleftrightarrow> 14 * 2^28 \<le> unat a \<and> unat a < 15 * 2^28"
    by (simp add: div_nat_eqI) arith
  also have "\<dots> \<longleftrightarrow> 0xE0000000 \<le> a \<and> a \<le> 0xEFFFFFFF"
    by (simp add: word_le_nat_alt) arith
  finally show ?thesis
    by (simp add: IN_MULTICAST_def IN_CLASSD_def)
qed

section \<open>The blocks of OpenUDP\<close>

lemmas prim_defs = emit_def msg_def setsockopt_call_def bind_call_def connect_call_def

lemma BuildAddr_fst: "fst (BuildAddr e a port w) = vlc_getaddrinfo e a port"
  by (simp add: BuildAddr_def Let_def split: option.splits)

lemma BuildAddr_calls: "calls (snd (BuildAddr e a port w)) = calls w @ [Getaddrinfo a port]"
  by (simp add: BuildAddr_def prim_defs Let_def split: option.splits)

lemma BuildAddr_frame:
  "open_fds (snd (BuildAddr e a port w)) = open_fds w"
  "vars (snd (BuildAddr e a port w)) = vars w"
  by (simp_all add: BuildAddr_def prim_defs Let_def split: option.splits)

lemma tune_socket_calls:
  "calls (tune_socket pl e fd w) =
     calls w
     @ [Setsockopt fd SOL_SOCKET SO_REUSEADDR (Int_arg 1)
          (setsockopt_ret e SOL_SOCKET SO_REUSEADDR (Int_arg 1))]
     @ (if have_SO_REUSEPORT pl
        then [Setsockopt fd SOL_SOCKET SO_REUSEPORT (Int_arg 1)
                (setsockopt_ret e SOL_SOCKET SO_REUSEPORT (Int_arg 1))]
        else [])
     @ (if have_SO_RCVBUF pl
        then [Setsockopt fd SOL_SOCKET SO_RCVBUF (Int_arg 0x80000)
                (setsockopt_ret e SOL_SOCKET SO_RCVBUF (Int_arg 0x80000)),
              Setsockopt fd SOL_SOCKET SO_SNDBUF (Int_arg 0x80000)
                (setsockopt_ret e SOL_SOCKET SO_SNDBUF (Int_arg 0x80000))]
        else [])"
  by (simp add: tune_socket_def prim_defs Let_def)

lemma tune_socket_frame:
  "open_fds (tune_socket pl e fd w) = open_fds w"
  "vars (tune_socket pl e fd w) = vars w"
  by (simp_all add: tune_socket_def prim_defs Let_def)

lemma bind_socket_fst:
  "fst (bind_socket pl e fd sock w) = (\<not> bind_ret e (bind_target pl sock) < 0)"
  by (simp add: bind_socket_def bind_target_def prim_defs Let_def)

lemma bind_socket_calls:
  "calls (snd (bind_socket pl e fd sock w)) =
     calls w @ [Bind fd (bind_target pl sock) (bind_ret e (bind_target pl sock))]"
  by (simp add: bind_socket_def bind_target_def prim_defs Let_def)

lemma bind_socket_frame:
  "open_fds (snd (bind_socket pl e fd sock w)) = open_fds w"
  "vars (snd (bind_socket pl e fd sock w)) = vars w"
  by (simp_all add: bind_socket_def prim_defs Let_def)

lemma allow_broadcast_calls:
  "calls (allow_broadcast pl e b fd w) =
     calls w
     @ (if \<not> SYS_BEOS pl \<and> b = []
        then [Setsockopt fd SOL_SOCKET SO_BROADCAST (Int_arg 1)
                (setsockopt_ret e SOL_SOCKET SO_BROADCAST (Int_arg 1))]
        else [])"
  by (simp add: allow_broadcast_def prim_defs Let_def)

lemma allow_broadcast_frame:
  "open_fds (allow_broadcast pl e b fd w) = open_fds w"
  "vars (allow_broadcast pl e b fd w) = vars w"
  by (simp_all add: allow_broadcast_def prim_defs Let_def)

lemma join_group_fst:
  "fst (join_group e p fd sock w) =
     (setsockopt_ret e IPPROTO_IP IP_ADD_SOURCE_MEMBERSHIP (join_request e p sock) \<noteq> -1)"
  by (simp add: join_group_def join_request_def prim_defs Let_def)

lemma join_group_calls:
  "calls (snd (join_group e p fd sock w)) =
     calls w
     @ [Config_GetPsz ''miface-addr'',
        Setsockopt fd IPPROTO_IP IP_ADD_SOURCE_MEMBERSHIP (join_request e p sock)
          (setsockopt_ret e IPPROTO_IP IP_ADD_SOURCE_MEMBERSHIP (join_request e p sock))]"
  by (simp add: join_group_def join_request_def prim_defs Let_def)

lemma join_group_frame:
  "open_fds (snd (join_group e p fd sock w)) = open_fds w"
  "vars (snd (join_group e p fd sock w)) = vars w"
  by (simp_all add: join_group_def prim_defs Let_def)

lemma set_ttl_fst:
  "fst (set_ttl e fd t w) =
     (\<not> (setsockopt_ret e IPPROTO_IP IP_MULTICAST_TTL (Byte_arg (word_of_int t)) < 0
         \<and> setsockopt_ret e IPPROTO_IP IP_MULTICAST_TTL (Int_arg t) < 0))"
  by (simp add: set_ttl_def prim_defs Let_def)

lemma set_ttl_calls:
  "calls (snd (set_ttl e fd t w)) =
     calls w
     @ Setsockopt fd IPPROTO_IP IP_MULTICAST_TTL (Byte_arg (word_of_int t))
         (setsockopt_ret e IPPROTO_IP IP_MULTICAST_TTL (Byte_arg (word_of_int t)))
       # (if setsockopt_ret e IPPROTO_IP IP_MULTICAST_TTL (Byte_arg (word_of_int t)) < 0
          then [Setsockopt fd IPPROTO_IP IP_MULTICAST_TTL (Int_arg t)
                  (setsockopt_ret e IPPROTO_IP IP_MULTICAST_TTL (Int_arg t))]
          else [])"
  by (simp add: set_ttl_def prim_defs Let_def)

lemma set_ttl_frame:
  "open_fds (snd (set_ttl e fd t w)) = open_fds w"
  "vars (snd (set_ttl e fd t w)) = vars w"
  by (simp_all add: set_ttl_def prim_defs Let_def)

lemma multicast_send_options_fst:
  "fst (multicast_send_options e p fd w) = send_options_ok e p"
  by (simp add: multicast_send_options_def send_options_ok_def mif_ok_def ttl_ok_def
        set_ttl_fst setsockopt_call_def Let_def split: option.splits)

lemma multicast_send_options_calls:
  "calls (snd (multicast_send_options e p fd w)) = calls w @ send_option_events e p fd"
  by (simp add: multicast_send_options_def send_option_events_def mif_events_def mif_ok_def
        ttl_events_def set_ttl_calls prim_defs Let_def split: option.splits)

lemma multicast_send_options_frame:
  "open_fds (snd (multicast_send_options e p fd w)) = open_fds w"
  "vars (snd (multicast_send_options e p fd w)) = vars w"
  by (simp_all add: multicast_send_options_def set_ttl_frame prim_defs Let_def
        split: option.splits)

lemma connect_remote_fst: "fst (connect_remote pl e p fd w) = connect_ok pl e p"
  by (simp add: connect_remote_def connect_ok_def remote_multicast_def BuildAddr_def
        multicast_send_options_fst connect_call_def Let_def split: option.splits)

lemma connect_remote_calls:
  "calls (snd (connect_remote pl e p fd w)) = calls w @ connect_events pl e p fd"
  by (auto simp: connect_remote_def connect_events_def remote_multicast_def BuildAddr_def
        multicast_send_options_calls prim_defs Let_def split: option.splits)

lemma connect_remote_frame:
  "open_fds (snd (connect_remote pl e p fd w)) = open_fds w"
  "vars (snd (connect_remote pl e p fd w)) = vars w"
  by (simp_all add: connect_remote_def BuildAddr_def multicast_send_options_frame prim_defs
        Let_def split: option.splits)

lemma read_mtu_fst: "fst (read_mtu e w) = mtu_value e (vars w)"
  by (simp add: read_mtu_def mtu_value_def prim_defs Let_def split: option.splits)

lemma read_mtu_calls: "calls (snd (read_mtu e w)) = calls w @ mtu_events e (vars w)"
  by (simp add: read_mtu_def mtu_events_def prim_defs Let_def split: option.splits)

lemma read_mtu_frame:
  "open_fds (snd (read_mtu e w)) = open_fds w"
  "vars (snd (read_mtu e w)) = mtu_vars e (vars w)"
  by (simp_all add: read_mtu_def mtu_vars_def prim_defs Let_def split: option.splits)

lemmas stage_simps =
  BuildAddr_fst BuildAddr_calls BuildAddr_frame tune_socket_calls tune_socket_frame
  bind_socket_fst bind_socket_calls bind_socket_frame allow_broadcast_calls
  allow_broadcast_frame join_group_fst join_group_calls join_group_frame
  connect_remote_fst connect_remote_calls connect_remote_frame
  read_mtu_fst read_mtu_calls read_mtu_frame

lemmas trace_defs =
  trace_def socket_events_def bound_events_def branch_events_def branch_ok_def
  join_events_def join_ok_def join_branch_def broadcast_events_def tune_events_def

lemma BuildAddr_cases:
  "BuildAddr e a port w = (vlc_getaddrinfo e a port, snd (BuildAddr e a port w))"
  by (metis BuildAddr_fst prod.collapse)

lemma OpenUDP_ret:
  "fst (OpenUDP pl e p w) = (if succeeds pl e p then VLC_SUCCESS else VLC_EGENERIC)"
  unfolding OpenUDP_def succeeds_def
  apply (subst BuildAddr_cases)
  apply (simp add: stage_simps trace_defs socket_call_def close_call_def emit_def msg_def
      Let_def split_beta split: option.splits)
  done

lemma OpenUDP_calls_trace: "OpenUDP_calls pl e p w = trace pl e p (vars w)"
  unfolding OpenUDP_def OpenUDP_calls_def
  apply (subst BuildAddr_cases)
  apply (simp add: stage_simps trace_defs socket_call_def close_call_def emit_def msg_def
      Let_def split_beta split: option.splits)
  done

lemma OpenUDP_private:
  "fst (snd (OpenUDP pl e p w)) =
     (if succeeds pl e p
      then p\<lparr>i_handle := socket_ret e, i_mtu := mtu_value e (vars w)\<rparr>
      else p\<lparr>i_handle := -1\<rparr>)"
  unfolding OpenUDP_def succeeds_def
  apply (subst BuildAddr_cases)
  apply (simp add: stage_simps trace_defs socket_call_def close_call_def emit_def msg_def
      Let_def split_beta split: option.splits)
  done

lemma OpenUDP_vars:
  "vars (snd (snd (OpenUDP pl e p w))) =
     (if succeeds pl e p then mtu_vars e (vars w) else vars w)"
  unfolding OpenUDP_def succeeds_def
  apply (subst BuildAddr_cases)
  apply (simp add: stage_simps trace_defs socket_call_def close_call_def emit_def msg_def
      Let_def split_beta split: option.splits)
  done

lemma OpenUDP_open_fds:
  "open_fds (snd (snd (OpenUDP pl e p w))) =
     (if succeeds pl e p then socket_ret e # open_fds w
      else if vlc_getaddrinfo e (psz_bind_addr p) (i_bind_port p) \<noteq> None \<and> socket_ret e \<noteq> -1
      then removeAll (socket_ret e) (socket_ret e # open_fds w)
      else open_fds w)"
  unfolding OpenUDP_def succeeds_def
  apply (subst BuildAddr_cases)
  apply (simp add: stage_simps trace_defs socket_call_def close_call_def emit_def msg_def
      Let_def split_beta split: option.splits)
  done

lemmas test_defs = ntohl_le_def test_platform_def test_inet_addr_def test_getaddrinfo_def
  test_env_def test_world_def request_def

lemmas event_defs = connect_events_def send_option_events_def mif_events_def ttl_events_def
  mtu_events_def

lemmas ok_defs = succeeds_def connect_ok_def send_options_ok_def mif_ok_def ttl_ok_def
  remote_multicast_def

lemma last_trace_failure:
  "vlc_getaddrinfo e (psz_bind_addr p) (i_bind_port p) = Some sock \<Longrightarrow> socket_ret e \<noteq> -1 \<Longrightarrow>
   \<not> succeeds pl e p \<Longrightarrow> last (trace pl e p vs) = Close (socket_ret e)"
  by (auto simp: trace_def socket_events_def bound_events_def succeeds_def)

lemma filter_ttl_trace:
  "filter is_ttl (trace pl e p vs) =
     (case vlc_getaddrinfo e (psz_bind_addr p) (i_bind_port p) of
        None \<Rightarrow> []
      | Some sock \<Rightarrow>
          if socket_ret e \<noteq> -1 \<and> \<not> bind_ret e (bind_target pl sock) < 0
               \<and> \<not> join_branch pl sock
          then (case vlc_getaddrinfo e (psz_server_addr p) (i_server_port p) of
                  None \<Rightarrow> []
                | Some sa \<Rightarrow>
                    if connect_ret e sa \<noteq> -1 \<and> remote_multicast pl e p \<and> mif_ok e
                         \<and> chosen_ttl e p > 0
                    then ttl_events e (socket_ret e) (chosen_ttl e p) else [])
          else [])"
  by (simp add: trace_defs event_defs is_ttl_def split: option.splits)

lemma advisory_results_ignored:
  assumes adv: "\<And>opt. P opt \<Longrightarrow> advisory_opt opt"
    and same: "\<And>lvl opt v. \<not> P opt \<Longrightarrow> g lvl opt v = setsockopt_ret e lvl opt v"
  shows "succeeds pl (e\<lparr>setsockopt_ret := g\<rparr>) p = succeeds pl e p"
    and "map (forget_result P) (trace pl (e\<lparr>setsockopt_ret := g\<rparr>) p vs)
           = map (forget_result P) (trace pl e p vs)"
proof -
  have n: "\<not> P IP_ADD_SOURCE_MEMBERSHIP" "\<not> P IP_MULTICAST_IF" "\<not> P IP_MULTICAST_TTL"
    using adv by (auto simp: advisory_opt_def tuning_opt_def)
  have g: "g lvl IP_ADD_SOURCE_MEMBERSHIP v = setsockopt_ret e lvl IP_ADD_SOURCE_MEMBERSHIP v"
    "g lvl IP_MULTICAST_IF v = setsockopt_ret e lvl IP_MULTICAST_IF v"
    "g lvl IP_MULTICAST_TTL v = setsockopt_ret e lvl IP_MULTICAST_TTL v" for lvl v
    using n same by simp_all
  have req: "join_request (e\<lparr>setsockopt_ret := g\<rparr>) p sock = join_request e p sock" for sock
    by (simp add: join_request_def join_interface_def split: option.splits)
  have ttl: "chosen_ttl (e\<lparr>setsockopt_ret := g\<rparr>) p = chosen_ttl e p"
    by (simp add: chosen_ttl_def)
  have mif: "mif_ok (e\<lparr>setsockopt_ret := g\<rparr>) = mif_ok e"
    by (simp add: mif_ok_def g split: option.splits)
  have so: "send_options_ok (e\<lparr>setsockopt_ret := g\<rparr>) p = send_options_ok e p"
    by (simp add: send_options_ok_def ttl_ok_def mif ttl g)
  have rm: "remote_multicast pl (e\<lparr>setsockopt_ret := g\<rparr>) p = remote_multicast pl e p"
    by (simp add: remote_multicast_def)
  have co: "connect_ok pl (e\<lparr>setsockopt_ret := g\<rparr>) p = connect_ok pl e p"
    by (simp add: connect_ok_def rm so split: option.splits)
  have bo: "branch_ok pl (e\<lparr>setsockopt_ret := g\<rparr>) p sock = branch_ok pl e p sock" for sock
    by (simp add: branch_ok_def join_ok_def req g co)
  show "succeeds pl (e\<lparr>setsockopt_ret := g\<rparr>) p = succeeds pl e p"
    by (simp add: succeeds_def bo split: option.splits)
  have se: "send_option_events (e\<lparr>setsockopt_ret := g\<rparr>) p fd = send_option_events e p fd" for fd
    by (simp add: send_option_events_def mif_events_def ttl_events_def mif ttl g split: option.splits)
  have ce: "connect_events pl (e\<lparr>setsockopt_ret := g\<rparr>) p fd = connect_events pl e p fd" for fd
    by (simp add: connect_events_def rm se split: option.splits)
  have be: "branch_events pl (e\<lparr>setsockopt_ret := g\<rparr>) p fd sock = branch_events pl e p fd sock"
    for fd sock
    by (simp add: branch_events_def join_events_def req g ce)
  have me: "mtu_events (e\<lparr>setsockopt_ret := g\<rparr>) vs = mtu_events e vs"
    by (simp add: mtu_events_def split: option.splits)
  have te: "map (forget_result P) (tune_events pl (e\<lparr>setsockopt_ret := g\<rparr>) fd)
              = map (forget_result P) (tune_events pl e fd)" for fd
    using same by (simp add: tune_events_def)
  have bc: "map (forget_result P) (broadcast_events pl (e\<lparr>setsockopt_ret := g\<rparr>) b fd)
              = map (forget_result P) (broadcast_events pl e b fd)" for b fd
    using same by (simp add: broadcast_events_def)
  show "map (forget_result P) (trace pl (e\<lparr>setsockopt_ret := g\<rparr>) p vs)
          = map (forget_result P) (trace pl e p vs)"
    by (simp add: trace_def socket_events_def bound_events_def te bc be bo me
          split: option.splits)
qed

lemma chosen_ttl_alt:
  "chosen_ttl e p = (if 0 < i_ttl p then i_ttl p else config_GetInt e ''ttl'')"
  by (simp add: chosen_ttl_def)

lemma filter_var_trace:
  "succeeds pl e p \<Longrightarrow> filter is_var (trace pl e p vs) = mtu_events e vs"
  by (auto simp: succeeds_def trace_defs event_defs split: option.splits)

lemma last_trace_success:
  "succeeds pl e p \<Longrightarrow> last (trace pl e p vs) = Var_Get ''mtu''"
  by (auto simp: succeeds_def trace_def socket_events_def bound_events_def mtu_events_def
        split: option.splits)

lemmas eval_defs = OpenUDP_ret OpenUDP_calls_trace OpenUDP_private OpenUDP_vars OpenUDP_open_fds
  trace_defs event_defs ok_defs mtu_value_def mtu_vars_def chosen_ttl_def bind_target_def
  join_request_def join_interface_def test_defs IN_MULTICAST_def IN_CLASSD_def INADDR_NONE_def
  INADDR_ANY_def

section \<open>The claims\<close>

subsection \<open>C1: which branch the bind address selects\<close>

text \<open>
  C1, as stated, fails: a build without \<open>IP_ADD_SOURCE_MEMBERSHIP\<close> has no join branch
  at all (the \<open>#ifdef\<close> of line 251), so a multicast bind address is connected.
  Here 239.255.12.42 resolves, is in the multicast range, and the socket is connected
  to 10.0.0.5 without any membership request.
\<close>

theorem C1_counterexample:
  "vlc_getaddrinfo test_env ''239.255.12.42'' 5004 = Some \<lparr>sin_port = 5004, sin_addr = 0x2A0CFFEF\<rparr>
   \<and> ntohl_le 0x2A0CFFEF = 0xEFFF0C2A
   \<and> list_ex is_connect
        (OpenUDP_calls (test_platform\<lparr>have_IP_ADD_SOURCE_MEMBERSHIP := False\<rparr>) test_env
           (request ''239.255.12.42'' 5004 ''10.0.0.5'' 5004 0) test_world)
   \<and> \<not> list_ex is_join
        (OpenUDP_calls (test_platform\<lparr>have_IP_ADD_SOURCE_MEMBERSHIP := False\<rparr>) test_env
           (request ''239.255.12.42'' 5004 ''10.0.0.5'' 5004 0) test_world)"
  by (simp add: OpenUDP_calls_trace trace_defs event_defs ok_defs test_defs bind_target_def
        is_join_def IN_MULTICAST_def IN_CLASSD_def INADDR_NONE_def INADDR_ANY_def)

text \<open>
  C1 (amended): when the bind address resolves, then on a build that defines
  \<open>IP_ADD_SOURCE_MEMBERSHIP\<close> an address in 224.0.0.0-239.255.255.255 never leads to
  \<open>connect\<close>, and once the socket is created and bound a membership request is made;
  on every build an address outside that range never leads to a membership request, and
  once the socket is created and bound the remote address is resolved and, when it
  resolves, the socket is connected to it.
\<close>

theorem C1_branch:
  assumes "vlc_getaddrinfo e (psz_bind_addr p) (i_bind_port p) = Some sock"
  shows
    "(have_IP_ADD_SOURCE_MEMBERSHIP pl
        \<and> 0xE0000000 \<le> ntohl pl (sin_addr sock) \<and> ntohl pl (sin_addr sock) \<le> 0xEFFFFFFF
      \<longrightarrow> \<not> list_ex is_connect (OpenUDP_calls pl e p w)
          \<and> (socket_ret e \<noteq> -1 \<and> 0 \<le> bind_ret e (bind_target pl sock)
               \<longrightarrow> list_ex is_join (OpenUDP_calls pl e p w)))
     \<and> (\<not> (0xE0000000 \<le> ntohl pl (sin_addr sock) \<and> ntohl pl (sin_addr sock) \<le> 0xEFFFFFFF)
      \<longrightarrow> \<not> list_ex is_join (OpenUDP_calls pl e p w)
          \<and> (socket_ret e \<noteq> -1 \<and> 0 \<le> bind_ret e (bind_target pl sock)
               \<longrightarrow> Getaddrinfo (psz_server_addr p) (i_server_port p)
                      \<in> set (tl (OpenUDP_calls pl e p w))
                   \<and> (\<forall>sa. vlc_getaddrinfo e (psz_server_addr p) (i_server_port p) = Some sa
                          \<longrightarrow> Connect (socket_ret e) sa (connect_ret e sa)
                                \<in> set (OpenUDP_calls pl e p w))))"
  using assms
  unfolding OpenUDP_calls_trace IN_MULTICAST_range[symmetric]
  by (auto simp: trace_defs event_defs is_join_def list_ex_iff split: option.splits if_splits)

text \<open>C1 at a multicast and at a unicast bind address of the test environment.\<close>

theorem C1_witness:
  "\<not> list_ex is_connect
       (OpenUDP_calls test_platform test_env (request ''239.255.12.42'' 5004 ''10.0.0.5'' 0 0) test_world)
   \<and> list_ex is_join
       (OpenUDP_calls test_platform test_env (request ''239.255.12.42'' 5004 ''10.0.0.5'' 0 0) test_world)
   \<and> \<not> list_ex is_join
       (OpenUDP_calls test_platform test_env (request ''192.168.1.10'' 1234 ''10.0.0.5'' 5000 0) test_world)
   \<and> Connect 3 \<lparr>sin_port = 5000, sin_addr = 0x0500000A\<rparr> 0
       \<in> set (OpenUDP_calls test_platform test_env (request ''192.168.1.10'' 1234 ''10.0.0.5'' 5000 0) test_world)"
proof -
  have m: "vlc_getaddrinfo test_env (psz_bind_addr (request ''239.255.12.42'' 5004 ''10.0.0.5'' 0 0))
             (i_bind_port (request ''239.255.12.42'' 5004 ''10.0.0.5'' 0 0))
           = Some \<lparr>sin_port = 5004, sin_addr = 0x2A0CFFEF\<rparr>"
    by (simp add: test_defs INADDR_NONE_def)
  have u: "vlc_getaddrinfo test_env (psz_bind_addr (request ''192.168.1.10'' 1234 ''10.0.0.5'' 5000 0))
             (i_bind_port (request ''192.168.1.10'' 1234 ''10.0.0.5'' 5000 0))
           = Some \<lparr>sin_port = 1234, sin_addr = 0x0A01A8C0\<rparr>"
    by (simp add: test_defs INADDR_NONE_def)
  show ?thesis
    using C1_branch [OF m, of test_platform test_world] C1_branch [OF u, of test_platform test_world]
    by (simp add: test_defs bind_target_def INADDR_NONE_def)
qed

subsection \<open>C2: the join when no source address is given\<close>

text \<open>
  C2 does not hold of the code: the comment of lines 258-260 reserves
  \<open>IP_ADD_SOURCE_MEMBERSHIP\<close> for the case that a source address is given, but the
  request is made whatever \<open>psz_server_addr\<close> is. With the bind address 239.255.12.42
  and an empty server address the only membership request is source-specific, its
  source being what \<open>inet_addr\<close> makes of the empty string.
\<close>

theorem C2_join_without_source:
  "psz_server_addr (request ''239.255.12.42'' 5004 [] 0 0) = []
   \<and> filter is_join
        (OpenUDP_calls test_platform test_env (request ''239.255.12.42'' 5004 [] 0 0) test_world)
      = [Setsockopt 3 IPPROTO_IP IP_ADD_SOURCE_MEMBERSHIP
           (Mreq_source_arg
              \<lparr>imr_multiaddr = 0x2A0CFFEF, imr_sourceaddr = INADDR_NONE,
               imr_interface = INADDR_ANY\<rparr>) 0]
   \<and> fst (OpenUDP test_platform test_env (request ''239.255.12.42'' 5004 [] 0 0) test_world)
      = VLC_SUCCESS"
  by (simp add: eval_defs is_join_def)

subsection \<open>C3: no descriptor outlives a failure\<close>

text \<open>
  C3: when \<open>socket\<close> hands out a descriptor that was not open before, a failing
  OpenUDP leaves \<open>i_handle\<close> at -1 and the set of open descriptors as it found it, and
  if a socket was created the last call made is the \<open>close\<close> of that descriptor; when
  the bind address does not resolve, OpenUDP fails without calling \<open>socket\<close>.
\<close>

theorem C3_failure_closes_socket:
  assumes "socket_ret e \<notin> set (open_fds w)"
  shows
    "(fst (OpenUDP pl e p w) = VLC_EGENERIC
      \<longrightarrow> i_handle (fst (snd (OpenUDP pl e p w))) = -1
          \<and> open_fds (snd (snd (OpenUDP pl e p w))) = open_fds w
          \<and> (vlc_getaddrinfo e (psz_bind_addr p) (i_bind_port p) \<noteq> None \<and> socket_ret e \<noteq> -1
               \<longrightarrow> Socket (socket_ret e) \<in> set (OpenUDP_calls pl e p w)
                   \<and> last (OpenUDP_calls pl e p w) = Close (socket_ret e)))
     \<and> (vlc_getaddrinfo e (psz_bind_addr p) (i_bind_port p) = None
      \<longrightarrow> fst (OpenUDP pl e p w) = VLC_EGENERIC
          \<and> \<not> list_ex is_socket (OpenUDP_calls pl e p w))"
proof -
  have fail: "fst (OpenUDP pl e p w) = VLC_EGENERIC \<longleftrightarrow> \<not> succeeds pl e p"
    by (simp add: OpenUDP_ret)
  have handle: "\<not> succeeds pl e p \<Longrightarrow> i_handle (fst (snd (OpenUDP pl e p w))) = -1"
    by (simp add: OpenUDP_private)
  have fds: "\<not> succeeds pl e p \<Longrightarrow> open_fds (snd (snd (OpenUDP pl e p w))) = open_fds w"
    using assms by (simp add: OpenUDP_open_fds)
  have sock: "vlc_getaddrinfo e (psz_bind_addr p) (i_bind_port p) \<noteq> None
      \<Longrightarrow> Socket (socket_ret e) \<in> set (OpenUDP_calls pl e p w)"
    by (auto simp: OpenUDP_calls_trace trace_def)
  have closed: "vlc_getaddrinfo e (psz_bind_addr p) (i_bind_port p) \<noteq> None \<Longrightarrow> socket_ret e \<noteq> -1
      \<Longrightarrow> \<not> succeeds pl e p \<Longrightarrow> last (OpenUDP_calls pl e p w) = Close (socket_ret e)"
    by (auto simp: OpenUDP_calls_trace last_trace_failure)
  have unresolved: "vlc_getaddrinfo e (psz_bind_addr p) (i_bind_port p) = None
      \<Longrightarrow> \<not> succeeds pl e p \<and> \<not> list_ex is_socket (OpenUDP_calls pl e p w)"
    by (simp add: OpenUDP_calls_trace trace_def succeeds_def)
  show ?thesis
    using fail handle fds sock closed unresolved by blast
qed

text \<open>C3 at a refused \<open>connect\<close> and at an unknown bind host.\<close>

theorem C3_witness:
  "fst (OpenUDP test_platform (test_env\<lparr>connect_ret := (\<lambda>sa. -1)\<rparr>)
          (request [] 1234 ''192.168.1.10'' 5000 0) test_world) = VLC_EGENERIC
   \<and> i_handle (fst (snd (OpenUDP test_platform (test_env\<lparr>connect_ret := (\<lambda>sa. -1)\<rparr>)
          (request [] 1234 ''192.168.1.10'' 5000 0) test_world))) = -1
   \<and> open_fds (snd (snd (OpenUDP test_platform (test_env\<lparr>connect_ret := (\<lambda>sa. -1)\<rparr>)
          (request [] 1234 ''192.168.1.10'' 5000 0) test_world))) = [0, 1, 2]
   \<and> last (OpenUDP_calls test_platform (test_env\<lparr>connect_ret := (\<lambda>sa. -1)\<rparr>)
          (request [] 1234 ''192.168.1.10'' 5000 0) test_world) = Close 3
   \<and> fst (OpenUDP test_platform test_env (request ''nohost'' 1234 [] 0 0) test_world) = VLC_EGENERIC
   \<and> \<not> list_ex is_socket
         (OpenUDP_calls test_platform test_env (request ''nohost'' 1234 [] 0 0) test_world)"
proof -
  have fresh: "socket_ret (test_env\<lparr>connect_ret := (\<lambda>sa. -1)\<rparr>) \<notin> set (open_fds test_world)"
    "socket_ret test_env \<notin> set (open_fds test_world)"
    by (simp_all add: test_defs)
  have failed: "fst (OpenUDP test_platform (test_env\<lparr>connect_ret := (\<lambda>sa. -1)\<rparr>)
          (request [] 1234 ''192.168.1.10'' 5000 0) test_world) = VLC_EGENERIC"
    by (simp add: OpenUDP_ret ok_defs test_defs trace_defs bind_target_def IN_MULTICAST_def
          IN_CLASSD_def INADDR_NONE_def INADDR_ANY_def)
  show ?thesis
    using C3_failure_closes_socket [OF fresh(1), of test_platform "request [] 1234 ''192.168.1.10'' 5000 0"]
      C3_failure_closes_socket [OF fresh(2), of test_platform "request ''nohost'' 1234 [] 0 0"]
      failed
    by (simp add: test_defs INADDR_NONE_def)
qed

subsection \<open>C4: the TTL as a byte, then as an int\<close>

text \<open>
  C4: whenever OpenUDP sets \<open>IP_MULTICAST_TTL\<close> at all, the first call passes one
  byte, a second call passing an \<open>int\<close> follows exactly when the first returned a
  negative value, there is no further call, and OpenUDP fails exactly when both returned a
  negative value.
\<close>

theorem C4_byte_then_int:
  assumes "filter is_ttl (OpenUDP_calls pl e p w) \<noteq> []"
  shows
    "filter is_ttl (OpenUDP_calls pl e p w) =
       Setsockopt (socket_ret e) IPPROTO_IP IP_MULTICAST_TTL
           (Byte_arg (word_of_int (chosen_ttl e p)))
           (setsockopt_ret e IPPROTO_IP IP_MULTICAST_TTL (Byte_arg (word_of_int (chosen_ttl e p))))
       # (if setsockopt_ret e IPPROTO_IP IP_MULTICAST_TTL (Byte_arg (word_of_int (chosen_ttl e p))) < 0
          then [Setsockopt (socket_ret e) IPPROTO_IP IP_MULTICAST_TTL (Int_arg (chosen_ttl e p))
                  (setsockopt_ret e IPPROTO_IP IP_MULTICAST_TTL (Int_arg (chosen_ttl e p)))]
          else [])
     \<and> (fst (OpenUDP pl e p w) = VLC_EGENERIC
          \<longleftrightarrow> setsockopt_ret e IPPROTO_IP IP_MULTICAST_TTL (Byte_arg (word_of_int (chosen_ttl e p))) < 0
              \<and> setsockopt_ret e IPPROTO_IP IP_MULTICAST_TTL (Int_arg (chosen_ttl e p)) < 0)"
  using assms
  unfolding OpenUDP_calls_trace OpenUDP_ret filter_ttl_trace
  by (auto simp: ttl_events_def ok_defs branch_ok_def split: option.splits if_splits)

text \<open>
  C4 where every byte-sized argument is refused.
\<close>

theorem C4_witness:
  "filter is_ttl
     (OpenUDP_calls test_platform
        (test_env\<lparr>setsockopt_ret := (\<lambda>lvl opt v. case v of Byte_arg b \<Rightarrow> -1 | _ \<Rightarrow> 0)\<rparr>)
        (request [] 5004 ''239.255.12.42'' 5004 0) test_world)
   = [Setsockopt 3 IPPROTO_IP IP_MULTICAST_TTL (Byte_arg 16) (-1),
      Setsockopt 3 IPPROTO_IP IP_MULTICAST_TTL (Int_arg 16) 0]
   \<and> fst (OpenUDP test_platform
        (test_env\<lparr>setsockopt_ret := (\<lambda>lvl opt v. case v of Byte_arg b \<Rightarrow> -1 | _ \<Rightarrow> 0)\<rparr>)
        (request [] 5004 ''239.255.12.42'' 5004 0) test_world) \<noteq> VLC_EGENERIC"
proof -
  have applied: "filter is_ttl
     (OpenUDP_calls test_platform
        (test_env\<lparr>setsockopt_ret := (\<lambda>lvl opt v. case v of Byte_arg b \<Rightarrow> -1 | _ \<Rightarrow> 0)\<rparr>)
        (request [] 5004 ''239.255.12.42'' 5004 0) test_world) \<noteq> []"
    by (simp add: OpenUDP_calls_trace filter_ttl_trace ttl_events_def ok_defs chosen_ttl_def
          join_branch_def bind_target_def test_defs IN_MULTICAST_def IN_CLASSD_def
          INADDR_NONE_def INADDR_ANY_def)
  show ?thesis
    using C4_byte_then_int [OF applied]
    by (simp add: chosen_ttl_def test_defs)
qed

subsection \<open>C5: broadcast reception\<close>

text \<open>
  C5, as stated, fails: on a BeOS build (line 239) the empty bind address is bound and
  \<open>SO_BROADCAST\<close> is never set.
\<close>

theorem C5_counterexample:
  "psz_bind_addr (request [] 1234 ''192.168.1.10'' 5000 0) = []
   \<and> Bind 3 \<lparr>sin_port = 1234, sin_addr = 0\<rparr> 0
       \<in> set (OpenUDP_calls (test_platform\<lparr>SYS_BEOS := True\<rparr>) test_env
                (request [] 1234 ''192.168.1.10'' 5000 0) test_world)
   \<and> filter is_broadcast
        (OpenUDP_calls (test_platform\<lparr>SYS_BEOS := True\<rparr>) test_env
           (request [] 1234 ''192.168.1.10'' 5000 0) test_world) = []
   \<and> fst (OpenUDP (test_platform\<lparr>SYS_BEOS := True\<rparr>) test_env
           (request [] 1234 ''192.168.1.10'' 5000 0) test_world) = VLC_SUCCESS"
  by (simp add: eval_defs is_broadcast_def)

text \<open>
  C5 (amended): with a non-empty bind address, and on a BeOS build, OpenUDP never sets
  \<open>SO_BROADCAST\<close>. On any other build, with the empty bind address, once the socket
  is created and bound OpenUDP sets \<open>SO_BROADCAST\<close> once, directly after \<open>bind\<close>.
  Whatever that call returns, OpenUDP returns the same code and makes the same other
  calls; a return of -1 adds one warning to the log.
\<close>

theorem C5_broadcast:
  "(psz_bind_addr p \<noteq> [] \<or> SYS_BEOS pl \<longrightarrow> filter is_broadcast (OpenUDP_calls pl e p w) = [])
   \<and> (psz_bind_addr p = [] \<and> \<not> SYS_BEOS pl
        \<and> vlc_getaddrinfo e (psz_bind_addr p) (i_bind_port p) = Some sock
        \<and> socket_ret e \<noteq> -1 \<and> 0 \<le> bind_ret e (bind_target pl sock)
      \<longrightarrow> filter is_broadcast (OpenUDP_calls pl e p w)
            = [Setsockopt (socket_ret e) SOL_SOCKET SO_BROADCAST (Int_arg 1)
                 (setsockopt_ret e SOL_SOCKET SO_BROADCAST (Int_arg 1))]
          \<and> last (takeWhile (\<lambda>ev. \<not> is_broadcast ev) (OpenUDP_calls pl e p w))
            = Bind (socket_ret e) (bind_target pl sock) (bind_ret e (bind_target pl sock)))
   \<and> fst (OpenUDP pl
        (e\<lparr>setsockopt_ret :=
             (\<lambda>lvl opt v. if opt = SO_BROADCAST then r else setsockopt_ret e lvl opt v)\<rparr>) p w)
       = fst (OpenUDP pl e p w)
   \<and> map (forget_result (\<lambda>opt. opt = SO_BROADCAST))
       (OpenUDP_calls pl
          (e\<lparr>setsockopt_ret :=
               (\<lambda>lvl opt v. if opt = SO_BROADCAST then r else setsockopt_ret e lvl opt v)\<rparr>) p w)
       = map (forget_result (\<lambda>opt. opt = SO_BROADCAST)) (OpenUDP_calls pl e p w)
   \<and> msgs (allow_broadcast pl e [] fd w0)
       = msgs w0
         @ (if \<not> SYS_BEOS pl \<and> setsockopt_ret e SOL_SOCKET SO_BROADCAST (Int_arg 1) = -1
            then [(Warn, ''cannot configure socket (SO_BROADCAST: %s)'')] else [])"
proof -
  have none: "psz_bind_addr p \<noteq> [] \<or> SYS_BEOS pl
      \<Longrightarrow> filter is_broadcast (OpenUDP_calls pl e p w) = []"
    by (auto simp: OpenUDP_calls_trace trace_defs event_defs is_broadcast_def
          split: option.splits)
  have one: "filter is_broadcast (OpenUDP_calls pl e p w)
            = [Setsockopt (socket_ret e) SOL_SOCKET SO_BROADCAST (Int_arg 1)
                 (setsockopt_ret e SOL_SOCKET SO_BROADCAST (Int_arg 1))]"
    and after_bind: "last (takeWhile (\<lambda>ev. \<not> is_broadcast ev) (OpenUDP_calls pl e p w))
            = Bind (socket_ret e) (bind_target pl sock) (bind_ret e (bind_target pl sock))"
    if "psz_bind_addr p = []" "\<not> SYS_BEOS pl"
      "vlc_getaddrinfo e (psz_bind_addr p) (i_bind_port p) = Some sock"
      "socket_ret e \<noteq> -1" "0 \<le> bind_ret e (bind_target pl sock)"
    using that
    by (auto simp: OpenUDP_calls_trace trace_defs event_defs is_broadcast_def
          split: option.splits)
  have adv: "\<And>opt. opt = SO_BROADCAST \<Longrightarrow> advisory_opt opt"
    by (simp add: advisory_opt_def)
  have same: "\<And>lvl opt v. \<not> opt = SO_BROADCAST \<Longrightarrow>
      (if opt = SO_BROADCAST then r else setsockopt_ret e lvl opt v) = setsockopt_ret e lvl opt v"
    by simp
  note ign = advisory_results_ignored [where P = "\<lambda>opt. opt = SO_BROADCAST"
      and g = "\<lambda>lvl opt v. if opt = SO_BROADCAST then r else setsockopt_ret e lvl opt v"
      and e = e, OF adv same]
  have ret: "fst (OpenUDP pl
        (e\<lparr>setsockopt_ret :=
             (\<lambda>lvl opt v. if opt = SO_BROADCAST then r else setsockopt_ret e lvl opt v)\<rparr>) p w)
       = fst (OpenUDP pl e p w)"
    by (simp add: OpenUDP_ret ign)
  have rest: "map (forget_result (\<lambda>opt. opt = SO_BROADCAST))
       (OpenUDP_calls pl
          (e\<lparr>setsockopt_ret :=
               (\<lambda>lvl opt v. if opt = SO_BROADCAST then r else setsockopt_ret e lvl opt v)\<rparr>) p w)
       = map (forget_result (\<lambda>opt. opt = SO_BROADCAST)) (OpenUDP_calls pl e p w)"
    by (simp add: OpenUDP_calls_trace ign)
  have warn: "msgs (allow_broadcast pl e [] fd w0)
       = msgs w0
         @ (if \<not> SYS_BEOS pl \<and> setsockopt_ret e SOL_SOCKET SO_BROADCAST (Int_arg 1) = -1
            then [(Warn, ''cannot configure socket (SO_BROADCAST: %s)'')] else [])"
    by (simp add: allow_broadcast_def prim_defs Let_def)
  show ?thesis
    using none one after_bind ret rest warn by blast
qed

text \<open>
  C5 at the empty and at a non-empty bind address.
\<close>

theorem C5_witness:
  "filter is_broadcast
     (OpenUDP_calls test_platform test_env (request [] 1234 ''192.168.1.10'' 5000 0) test_world)
     = [Setsockopt 3 SOL_SOCKET SO_BROADCAST (Int_arg 1) 0]
   \<and> last (takeWhile (\<lambda>ev. \<not> is_broadcast ev)
        (OpenUDP_calls test_platform test_env (request [] 1234 ''192.168.1.10'' 5000 0) test_world))
     = Bind 3 \<lparr>sin_port = 1234, sin_addr = 0\<rparr> 0
   \<and> fst (OpenUDP test_platform
        (test_env\<lparr>setsockopt_ret :=
           (\<lambda>lvl opt v. if opt = SO_BROADCAST then -1 else setsockopt_ret test_env lvl opt v)\<rparr>)
        (request [] 1234 ''192.168.1.10'' 5000 0) test_world)
     = fst (OpenUDP test_platform test_env (request [] 1234 ''192.168.1.10'' 5000 0) test_world)
   \<and> filter is_broadcast
        (OpenUDP_calls test_platform test_env (request ''192.168.1.10'' 1234 ''10.0.0.5'' 5000 0)
           test_world) = []"
proof -
  have resolved: "vlc_getaddrinfo test_env (psz_bind_addr (request [] 1234 ''192.168.1.10'' 5000 0))
       (i_bind_port (request [] 1234 ''192.168.1.10'' 5000 0))
     = Some \<lparr>sin_port = 1234, sin_addr = 0\<rparr>"
    by (simp add: test_defs INADDR_ANY_def)
  show ?thesis
    using resolved
      C5_broadcast [where p = "request [] 1234 ''192.168.1.10'' 5000 0" and pl = test_platform
        and e = test_env and w = test_world and r = "-1"
        and sock = "\<lparr>sin_port = 1234, sin_addr = 0\<rparr>"]
      C5_broadcast [where p = "request ''192.168.1.10'' 1234 ''10.0.0.5'' 5000 0"
        and pl = test_platform and e = test_env and w = test_world and r = 0
        and sock = "\<lparr>sin_port = 1234, sin_addr = 0\<rparr>"]
    by (simp add: test_defs bind_target_def IN_MULTICAST_def IN_CLASSD_def INADDR_ANY_def)
qed

subsection \<open>C6: the TTL that is applied\<close>

text \<open>
  C6, as stated, fails: the byte-sized argument is \<open>(unsigned char) i_ttl\<close>
  (line 334), so the explicit TTL 256 is applied as the byte 0.
\<close>

theorem C6_counterexample:
  "i_ttl (request [] 5004 ''239.255.12.42'' 5004 256) = 256
   \<and> filter is_ttl
        (OpenUDP_calls test_platform test_env (request [] 5004 ''239.255.12.42'' 5004 256)
           test_world)
      = [Setsockopt 3 IPPROTO_IP IP_MULTICAST_TTL (Byte_arg 0) 0]
   \<and> fst (OpenUDP test_platform test_env (request [] 5004 ''239.255.12.42'' 5004 256) test_world)
      = VLC_SUCCESS"
  by (simp add: eval_defs is_ttl_def)

text \<open>
  C6 (amended): on a build with \<open>IP_MULTICAST_IF\<close>, when the socket has been
  connected, the server address string is a multicast address for \<open>inet_addr\<close> and
  the interface option (if any) was accepted, let \<open>t\<close> be the explicit TTL when it is
  positive and the \<open>ttl\<close> of the config store otherwise. If \<open>t\<close> is positive, the
  byte-sized call carries \<open>t mod 256\<close> (which is \<open>t\<close> up to 255), the \<open>int\<close>-sized
  call that follows a refusal carries \<open>t\<close>, and the config store is asked for
  \<open>ttl\<close> exactly when the explicit TTL is not positive.
\<close>

theorem C6_ttl_value:
  assumes "vlc_getaddrinfo e (psz_bind_addr p) (i_bind_port p) = Some sock"
    and "socket_ret e \<noteq> -1"
    and "0 \<le> bind_ret e (bind_target pl sock)"
    and "\<not> (have_IP_ADD_SOURCE_MEMBERSHIP pl \<and> IN_MULTICAST (ntohl pl (sin_addr sock)))"
    and "vlc_getaddrinfo e (psz_server_addr p) (i_server_port p) = Some sa"
    and "connect_ret e sa \<noteq> -1"
    and "have_IP_MULTICAST_IF pl"
    and "IN_MULTICAST (ntohl pl (inet_addr e (psz_server_addr p)))"
    and "case config_GetPsz e ''miface-addr'' of
           None \<Rightarrow> True
         | Some s \<Rightarrow> 0 \<le> setsockopt_ret e IPPROTO_IP IP_MULTICAST_IF (In_addr_arg (inet_addr e s))"
    and "t = (if 0 < i_ttl p then i_ttl p else config_GetInt e ''ttl'')"
    and "0 < t"
  shows
    "filter is_ttl (OpenUDP_calls pl e p w) =
       Setsockopt (socket_ret e) IPPROTO_IP IP_MULTICAST_TTL (Byte_arg (word_of_int t))
         (setsockopt_ret e IPPROTO_IP IP_MULTICAST_TTL (Byte_arg (word_of_int t)))
       # (if setsockopt_ret e IPPROTO_IP IP_MULTICAST_TTL (Byte_arg (word_of_int t)) < 0
          then [Setsockopt (socket_ret e) IPPROTO_IP IP_MULTICAST_TTL (Int_arg t)
                  (setsockopt_ret e IPPROTO_IP IP_MULTICAST_TTL (Int_arg t))]
          else [])
     \<and> uint (word_of_int t :: 8 word) = t mod 256
     \<and> (t \<le> 255 \<longrightarrow> uint (word_of_int t :: 8 word) = t)
     \<and> (Config_GetInt ''ttl'' \<in> set (OpenUDP_calls pl e p w) \<longleftrightarrow> i_ttl p \<le> 0)"
proof -
  have ct: "chosen_ttl e p = t"
    using assms(10) by (simp add: chosen_ttl_alt)
  have mif: "mif_ok e"
    using assms(9) by (simp add: mif_ok_def split: option.splits)
  have events: "filter is_ttl (OpenUDP_calls pl e p w) = ttl_events e (socket_ret e) t"
    using assms(1-8,11) mif ct
    by (simp add: OpenUDP_calls_trace filter_ttl_trace join_branch_def remote_multicast_def)
  have byte: "uint (word_of_int t :: 8 word) = t mod 256"
    by (simp add: uint_word_of_int)
  have small: "t \<le> 255 \<Longrightarrow> uint (word_of_int t :: 8 word) = t"
    using assms(11) by (simp add: uint_word_of_int)
  have fetched: "Config_GetInt ''ttl'' \<in> set (OpenUDP_calls pl e p w) \<longleftrightarrow> i_ttl p \<le> 0"
    using assms(1-8) mif
    by (auto simp: OpenUDP_calls_trace trace_defs event_defs remote_multicast_def
          split: option.splits if_splits)
  show ?thesis
    using events byte small fetched unfolding ttl_events_def by blast
qed

text \<open>
  C6 in the scenario of the spec: no explicit TTL, default 16.
\<close>

theorem C6_witness:
  "filter is_ttl
     (OpenUDP_calls test_platform test_env (request [] 5004 ''239.255.12.42'' 5004 0) test_world)
     = [Setsockopt 3 IPPROTO_IP IP_MULTICAST_TTL (Byte_arg 16) 0]
   \<and> uint (16 :: 8 word) = 16
   \<and> Config_GetInt ''ttl''
       \<in> set (OpenUDP_calls test_platform test_env (request [] 5004 ''239.255.12.42'' 5004 0)
                test_world)"
proof -
  have bind: "vlc_getaddrinfo test_env (psz_bind_addr (request [] 5004 ''239.255.12.42'' 5004 0))
       (i_bind_port (request [] 5004 ''239.255.12.42'' 5004 0))
     = Some \<lparr>sin_port = 5004, sin_addr = 0\<rparr>"
    by (simp add: test_defs INADDR_ANY_def)
  have server: "vlc_getaddrinfo test_env (psz_server_addr (request [] 5004 ''239.255.12.42'' 5004 0))
       (i_server_port (request [] 5004 ''239.255.12.42'' 5004 0))
     = Some \<lparr>sin_port = 5004, sin_addr = 0x2A0CFFEF\<rparr>"
    by (simp add: test_defs INADDR_NONE_def)
  have t: "(16::int) = (if 0 < i_ttl (request [] 5004 ''239.255.12.42'' 5004 0)
       then i_ttl (request [] 5004 ''239.255.12.42'' 5004 0) else config_GetInt test_env ''ttl'')"
    by (simp add: test_defs)
  show ?thesis
    using C6_ttl_value [OF bind _ _ _ server _ _ _ _ t, of test_platform test_world]
    by (simp add: test_defs bind_target_def IN_MULTICAST_def IN_CLASSD_def INADDR_ANY_def)
qed

subsection \<open>C7: the tuning options\<close>

text \<open>
  C7: once the socket is created, the tuning options the build has are all set, in the
  order of the source, whatever each call returns; and replacing the results of these
  calls by any others changes neither the code OpenUDP returns nor any call it makes.
\<close>

theorem C7_tuning_is_advisory:
  "(vlc_getaddrinfo e (psz_bind_addr p) (i_bind_port p) \<noteq> None \<and> socket_ret e \<noteq> -1
     \<longrightarrow> filter is_tuning (OpenUDP_calls pl e p w)
          = [Setsockopt (socket_ret e) SOL_SOCKET SO_REUSEADDR (Int_arg 1)
               (setsockopt_ret e SOL_SOCKET SO_REUSEADDR (Int_arg 1))]
            @ (if have_SO_REUSEPORT pl
               then [Setsockopt (socket_ret e) SOL_SOCKET SO_REUSEPORT (Int_arg 1)
                       (setsockopt_ret e SOL_SOCKET SO_REUSEPORT (Int_arg 1))]
               else [])
            @ (if have_SO_RCVBUF pl
               then [Setsockopt (socket_ret e) SOL_SOCKET SO_RCVBUF (Int_arg 0x80000)
                       (setsockopt_ret e SOL_SOCKET SO_RCVBUF (Int_arg 0x80000)),
                     Setsockopt (socket_ret e) SOL_SOCKET SO_SNDBUF (Int_arg 0x80000)
                       (setsockopt_ret e SOL_SOCKET SO_SNDBUF (Int_arg 0x80000))]
               else []))
   \<and> fst (OpenUDP pl
        (e\<lparr>setsockopt_ret :=
             (\<lambda>lvl opt v. if tuning_opt opt then f opt v else setsockopt_ret e lvl opt v)\<rparr>) p w)
       = fst (OpenUDP pl e p w)
   \<and> map (forget_result tuning_opt)
       (OpenUDP_calls pl
          (e\<lparr>setsockopt_ret :=
               (\<lambda>lvl opt v. if tuning_opt opt then f opt v else setsockopt_ret e lvl opt v)\<rparr>) p w)
       = map (forget_result tuning_opt) (OpenUDP_calls pl e p w)"
proof -
  have attempted: "filter is_tuning (OpenUDP_calls pl e p w) = tune_events pl e (socket_ret e)"
    if "vlc_getaddrinfo e (psz_bind_addr p) (i_bind_port p) \<noteq> None" "socket_ret e \<noteq> -1"
    using that
    by (auto simp: OpenUDP_calls_trace trace_defs event_defs is_tuning_def tuning_opt_def
          split: option.splits)
  have adv: "\<And>opt. tuning_opt opt \<Longrightarrow> advisory_opt opt"
    by (simp add: advisory_opt_def)
  have same: "\<And>lvl opt v. \<not> tuning_opt opt \<Longrightarrow>
      (if tuning_opt opt then f opt v else setsockopt_ret e lvl opt v) = setsockopt_ret e lvl opt v"
    by simp
  note ign = advisory_results_ignored [where P = tuning_opt
      and g = "\<lambda>lvl opt v. if tuning_opt opt then f opt v else setsockopt_ret e lvl opt v"
      and e = e, OF adv same]
  have ret: "fst (OpenUDP pl
        (e\<lparr>setsockopt_ret :=
             (\<lambda>lvl opt v. if tuning_opt opt then f opt v else setsockopt_ret e lvl opt v)\<rparr>) p w)
       = fst (OpenUDP pl e p w)"
    by (simp add: OpenUDP_ret ign)
  have rest: "map (forget_result tuning_opt)
       (OpenUDP_calls pl
          (e\<lparr>setsockopt_ret :=
               (\<lambda>lvl opt v. if tuning_opt opt then f opt v else setsockopt_ret e lvl opt v)\<rparr>) p w)
       = map (forget_result tuning_opt) (OpenUDP_calls pl e p w)"
    by (simp add: OpenUDP_calls_trace ign)
  show ?thesis
    using attempted ret rest unfolding tune_events_def by blast
qed

text \<open>
  C7 where every tuning option is refused.
\<close>

theorem C7_witness:
  "filter is_tuning
     (OpenUDP_calls test_platform
        (test_env\<lparr>setsockopt_ret :=
           (\<lambda>lvl opt v. if tuning_opt opt then -1 else setsockopt_ret test_env lvl opt v)\<rparr>)
        (request [] 1234 ''192.168.1.10'' 5000 0) test_world)
     = [Setsockopt 3 SOL_SOCKET SO_REUSEADDR (Int_arg 1) (-1),
        Setsockopt 3 SOL_SOCKET SO_REUSEPORT (Int_arg 1) (-1),
        Setsockopt 3 SOL_SOCKET SO_RCVBUF (Int_arg 0x80000) (-1),
        Setsockopt 3 SOL_SOCKET SO_SNDBUF (Int_arg 0x80000) (-1)]
   \<and> fst (OpenUDP test_platform
        (test_env\<lparr>setsockopt_ret :=
           (\<lambda>lvl opt v. if tuning_opt opt then -1 else setsockopt_ret test_env lvl opt v)\<rparr>)
        (request [] 1234 ''192.168.1.10'' 5000 0) test_world)
     = fst (OpenUDP test_platform test_env (request [] 1234 ''192.168.1.10'' 5000 0) test_world)"
  using
    C7_tuning_is_advisory [where p = "request [] 1234 ''192.168.1.10'' 5000 0"
      and pl = test_platform and w = test_world and f = "\<lambda>opt v. -1"
      and e = "test_env\<lparr>setsockopt_ret :=
           (\<lambda>lvl opt v. if tuning_opt opt then -1 else setsockopt_ret test_env lvl opt v)\<rparr>"]
    C7_tuning_is_advisory [where p = "request [] 1234 ''192.168.1.10'' 5000 0"
      and pl = test_platform and w = test_world and f = "\<lambda>opt v. -1" and e = test_env]
  by (simp add: test_defs tuning_opt_def)

subsection \<open>C8: the interface of the membership request\<close>

text \<open>
  C8: on the join path the one membership request names as its interface the
  \<open>miface-addr\<close> of the config store when that is present, not empty and not
  \<open>INADDR_NONE\<close> for \<open>inet_addr\<close>, and \<open>INADDR_ANY\<close> otherwise.
\<close>

theorem C8_join_interface:
  assumes "vlc_getaddrinfo e (psz_bind_addr p) (i_bind_port p) = Some sock"
    and "socket_ret e \<noteq> -1"
    and "0 \<le> bind_ret e (bind_target pl sock)"
    and "have_IP_ADD_SOURCE_MEMBERSHIP pl"
    and "IN_MULTICAST (ntohl pl (sin_addr sock))"
  shows
    "\<exists>r. filter is_join (OpenUDP_calls pl e p w) =
       [Setsockopt (socket_ret e) IPPROTO_IP IP_ADD_SOURCE_MEMBERSHIP
          (Mreq_source_arg
             \<lparr>imr_multiaddr = sin_addr sock,
              imr_sourceaddr = inet_addr e (psz_server_addr p),
              imr_interface =
                (case config_GetPsz e ''miface-addr'' of
                   None \<Rightarrow> INADDR_ANY
                 | Some s \<Rightarrow>
                     if s \<noteq> [] \<and> inet_addr e s \<noteq> INADDR_NONE then inet_addr e s
                     else INADDR_ANY)\<rparr>) r]"
  using assms
  by (simp add: OpenUDP_calls_trace trace_defs event_defs is_join_def join_request_def
        join_interface_def split: option.splits)

text \<open>
  C8 with a dotted address and with a name \<open>inet_addr\<close> cannot read.
\<close>

theorem C8_witness:
  "(\<exists>r. filter is_join
       (OpenUDP_calls test_platform
          (test_env\<lparr>config_GetPsz := (\<lambda>name. if name = ''miface-addr'' then Some ''192.168.1.10'' else None)\<rparr>)
          (request ''239.255.12.42'' 5004 ''10.0.0.5'' 0 0) test_world)
     = [Setsockopt 3 IPPROTO_IP IP_ADD_SOURCE_MEMBERSHIP
          (Mreq_source_arg
             \<lparr>imr_multiaddr = 0x2A0CFFEF, imr_sourceaddr = 0x0500000A,
              imr_interface = 0x0A01A8C0\<rparr>) r])
   \<and> (\<exists>r. filter is_join
       (OpenUDP_calls test_platform
          (test_env\<lparr>config_GetPsz := (\<lambda>name. if name = ''miface-addr'' then Some ''eth0'' else None)\<rparr>)
          (request ''239.255.12.42'' 5004 ''10.0.0.5'' 0 0) test_world)
     = [Setsockopt 3 IPPROTO_IP IP_ADD_SOURCE_MEMBERSHIP
          (Mreq_source_arg
             \<lparr>imr_multiaddr = 0x2A0CFFEF, imr_sourceaddr = 0x0500000A,
              imr_interface = INADDR_ANY\<rparr>) r])"
proof -
  have bind: "vlc_getaddrinfo (test_env\<lparr>config_GetPsz := f\<rparr>)
       (psz_bind_addr (request ''239.255.12.42'' 5004 ''10.0.0.5'' 0 0))
       (i_bind_port (request ''239.255.12.42'' 5004 ''10.0.0.5'' 0 0))
     = Some \<lparr>sin_port = 5004, sin_addr = 0x2A0CFFEF\<rparr>" for f
    by (simp add: test_defs INADDR_NONE_def)
  show ?thesis
    using
      C8_join_interface [OF bind, of "\<lambda>name. if name = ''miface-addr'' then Some ''192.168.1.10'' else None"
        test_platform test_world]
      C8_join_interface [OF bind, of "\<lambda>name. if name = ''miface-addr'' then Some ''eth0'' else None"
        test_platform test_world]
    by (simp add: test_defs bind_target_def IN_MULTICAST_def IN_CLASSD_def INADDR_NONE_def
          INADDR_ANY_def)
qed

subsection \<open>C9: the MTU\<close>

text \<open>
  C9: a successful OpenUDP ends by reading the variable \<open>mtu\<close>. If the first
  \<open>var_Get\<close> succeeds its value is stored in \<open>i_mtu\<close> and the store is untouched;
  otherwise the variable is created with \<open>VLC_VAR_INTEGER | VLC_VAR_DOINHERIT\<close>, read
  again, and the value read is stored in \<open>i_mtu\<close>.
\<close>

theorem C9_mtu:
  assumes "fst (OpenUDP pl e p w) = VLC_SUCCESS"
  shows
    "(case var_Get e (vars w) ''mtu'' of
        Some v \<Rightarrow>
          i_mtu (fst (snd (OpenUDP pl e p w))) = v
          \<and> vars (snd (snd (OpenUDP pl e p w))) = vars w
          \<and> filter is_var (OpenUDP_calls pl e p w) = [Var_Get ''mtu'']
      | None \<Rightarrow>
          vars (snd (snd (OpenUDP pl e p w)))
            = var_Create e (vars w) ''mtu'' [VLC_VAR_INTEGER, VLC_VAR_DOINHERIT]
          \<and> filter is_var (OpenUDP_calls pl e p w)
            = [Var_Get ''mtu'', Var_Create ''mtu'' [VLC_VAR_INTEGER, VLC_VAR_DOINHERIT],
               Var_Get ''mtu'']
          \<and> i_mtu (fst (snd (OpenUDP pl e p w)))
            = (case var_Get e (vars (snd (snd (OpenUDP pl e p w)))) ''mtu'' of
                 Some v \<Rightarrow> v
               | None \<Rightarrow> val_uninit e))
     \<and> last (OpenUDP_calls pl e p w) = Var_Get ''mtu''
     \<and> i_handle (fst (snd (OpenUDP pl e p w))) = socket_ret e"
proof -
  have ok: "succeeds pl e p"
    using assms by (simp add: OpenUDP_ret split: if_splits)
  then show ?thesis
    by (simp add: OpenUDP_private OpenUDP_vars OpenUDP_calls_trace filter_var_trace
          last_trace_success mtu_events_def mtu_vars_def mtu_value_def split: option.splits)
qed

text \<open>
  C9 with the variable present and absent.
\<close>

theorem C9_witness:
  "i_mtu (fst (snd (OpenUDP test_platform test_env (request [] 1234 ''192.168.1.10'' 5000 0)
       (test_world\<lparr>vars := [(''mtu'', 1400)]\<rparr>)))) = 1400
   \<and> filter is_var (OpenUDP_calls test_platform test_env (request [] 1234 ''192.168.1.10'' 5000 0)
       (test_world\<lparr>vars := [(''mtu'', 1400)]\<rparr>)) = [Var_Get ''mtu'']
   \<and> i_mtu (fst (snd (OpenUDP test_platform test_env (request [] 1234 ''192.168.1.10'' 5000 0)
       test_world))) = 1500
   \<and> vars (snd (snd (OpenUDP test_platform test_env (request [] 1234 ''192.168.1.10'' 5000 0)
       test_world))) = [(''mtu'', 1500)]
   \<and> filter is_var (OpenUDP_calls test_platform test_env (request [] 1234 ''192.168.1.10'' 5000 0)
       test_world)
     = [Var_Get ''mtu'', Var_Create ''mtu'' [VLC_VAR_INTEGER, VLC_VAR_DOINHERIT], Var_Get ''mtu'']"
proof -
  have ok: "fst (OpenUDP test_platform test_env (request [] 1234 ''192.168.1.10'' 5000 0) w)
      = VLC_SUCCESS" for w
    by (simp add: OpenUDP_ret ok_defs trace_defs bind_target_def test_defs IN_MULTICAST_def
          IN_CLASSD_def INADDR_NONE_def INADDR_ANY_def)
  show ?thesis
    using C9_mtu [OF ok, of "test_world\<lparr>vars := [(''mtu'', 1400)]\<rparr>"] C9_mtu [OF ok, of test_world]
    by (simp add: test_defs)
qed

subsection \<open>C10: no TTL to apply\<close>




end
